theory Spec2Isabelle
  imports Main "HOL-Library.Log_Nat"
begin

section \<open>JavaScript numbers\<close>

text \<open>
  Every number of \<^verbatim>\<open>server.js\<close> is an IEEE 754 binary64 value. A finite one is
  modelled by the rational it denotes; the two zeros are not distinguished (the handlers
  only add, compare, test for truthiness and print, none of which separates them).
  Every arithmetic result is rounded to the nearest binary64 value, ties to even, by
  \<open>fl\<close>.
\<close>

datatype jsnum = Fin rat | PosInf | NegInf | NaN

definition pow2 :: "int \<Rightarrow> rat" where
  "pow2 k = (if 0 \<le> k then 2 ^ nat k else 1 / 2 ^ nat (- k))"

definition pow10 :: "int \<Rightarrow> rat" where
  "pow10 k = (if 0 \<le> k then 10 ^ nat k else 1 / 10 ^ nat (- k))"

definition round_half_even :: "rat \<Rightarrow> int" where
  "round_half_even q =
     (let f = \<lfloor>q\<rfloor>; d = q - of_int f
      in if d < 1 / 2 then f else if 1 / 2 < d then f + 1 else if even f then f else f + 1)"

text \<open>For \<open>0 < a\<close>, the exponent \<open>E\<close> with \<open>2 ^ E \<le> a < 2 ^ (E + 1)\<close>.\<close>

definition binary_exponent :: "rat \<Rightarrow> int" where
  "binary_exponent a =
     (if 1 \<le> a then int (floorlog 2 (nat \<lfloor>a\<rfloor>)) - 1
      else - int (floorlog 2 (nat (\<lceil>1 / a\<rceil> - 1))))"

text \<open>
  Rounding to binary64: 53 significant bits, least exponent of the last place \<open>-1074\<close>
  (subnormals), overflow to an infinity from \<open>2 ^ 1024\<close> on.
\<close>

definition fl :: "rat \<Rightarrow> jsnum" where
  "fl q =
     (if q = 0 then Fin 0
      else let e = max (binary_exponent \<bar>q\<bar> - 52) (- 1074);
               r = of_int (round_half_even (q / pow2 e)) * pow2 e
           in if 2 ^ 1024 \<le> r then PosInf
              else if r \<le> - (2 ^ 1024) then NegInf
              else Fin r)"

fun num_neg :: "jsnum \<Rightarrow> jsnum" where
  "num_neg (Fin a) = Fin (- a)"
| "num_neg PosInf = NegInf"
| "num_neg NegInf = PosInf"
| "num_neg NaN = NaN"

text \<open>The operator \<^verbatim>\<open>+\<close> on two numbers.\<close>

fun num_add :: "jsnum \<Rightarrow> jsnum \<Rightarrow> jsnum" where
  "num_add (Fin a) (Fin b) = fl (a + b)"
| "num_add NaN _ = NaN"
| "num_add _ NaN = NaN"
| "num_add PosInf NegInf = NaN"
| "num_add NegInf PosInf = NaN"
| "num_add PosInf _ = PosInf"
| "num_add NegInf _ = NegInf"
| "num_add _ PosInf = PosInf"
| "num_add _ NegInf = NegInf"

definition num_sub :: "jsnum \<Rightarrow> jsnum \<Rightarrow> jsnum" where
  "num_sub a b = num_add a (num_neg b)"

text \<open>The sign of a product or quotient with an infinite operand.\<close>

definition signed_inf :: "bool \<Rightarrow> jsnum" where
  "signed_inf positive = (if positive then PosInf else NegInf)"

fun num_mul :: "jsnum \<Rightarrow> jsnum \<Rightarrow> jsnum" where
  "num_mul (Fin a) (Fin b) = fl (a * b)"
| "num_mul NaN _ = NaN"
| "num_mul _ NaN = NaN"
| "num_mul PosInf (Fin b) = (if b = 0 then NaN else signed_inf (0 < b))"
| "num_mul NegInf (Fin b) = (if b = 0 then NaN else signed_inf (b < 0))"
| "num_mul (Fin a) PosInf = (if a = 0 then NaN else signed_inf (0 < a))"
| "num_mul (Fin a) NegInf = (if a = 0 then NaN else signed_inf (a < 0))"
| "num_mul PosInf PosInf = PosInf"
| "num_mul PosInf NegInf = NegInf"
| "num_mul NegInf PosInf = NegInf"
| "num_mul NegInf NegInf = PosInf"

text \<open>
  The operator \<^verbatim>\<open>/\<close>. The source divides by the literals 3450 and 100 only; a zero
  divisor is read as \<open>+0\<close>.
\<close>

fun num_div :: "jsnum \<Rightarrow> jsnum \<Rightarrow> jsnum" where
  "num_div (Fin a) (Fin b) =
     (if b = 0 then (if a = 0 then NaN else signed_inf (0 < a)) else fl (a / b))"
| "num_div NaN _ = NaN"
| "num_div _ NaN = NaN"
| "num_div (Fin a) PosInf = Fin 0"
| "num_div (Fin a) NegInf = Fin 0"
| "num_div PosInf (Fin b) = signed_inf (0 \<le> b)"
| "num_div NegInf (Fin b) = signed_inf (b < 0)"
| "num_div PosInf PosInf = NaN"
| "num_div PosInf NegInf = NaN"
| "num_div NegInf PosInf = NaN"
| "num_div NegInf NegInf = NaN"

text \<open>The operator \<^verbatim>\<open><\<close> on two numbers: false as soon as one is \<open>NaN\<close>.\<close>

fun num_lt :: "jsnum \<Rightarrow> jsnum \<Rightarrow> bool" where
  "num_lt (Fin a) (Fin b) = (a < b)"
| "num_lt NaN _ = False"
| "num_lt _ NaN = False"
| "num_lt NegInf NegInf = False"
| "num_lt NegInf _ = True"
| "num_lt _ NegInf = False"
| "num_lt PosInf _ = False"
| "num_lt _ PosInf = True"

text \<open>Truthiness of a number, and \<^verbatim>\<open>a || b\<close> on numbers.\<close>

fun num_truthy :: "jsnum \<Rightarrow> bool" where
  "num_truthy (Fin a) = (a \<noteq> 0)"
| "num_truthy NaN = False"
| "num_truthy _ = True"

definition num_or :: "jsnum \<Rightarrow> jsnum \<Rightarrow> jsnum" where
  "num_or a b = (if num_truthy a then a else b)"

section \<open>JavaScript values and strings\<close>

text \<open>
  The body parser hands every handler an object, so a request body is a function from
  field names to values. A field is absent (\<open>Undefined\<close>) or holds a JSON scalar;
  bodies that carry an array or an object in a field the handlers read are outside
  this model. A \<open>char\<close> stands for the code unit of the same number (Latin-1).
\<close>

datatype jsval = Undefined | Null | Bool bool | Num jsnum | Str string

type_synonym body = "string \<Rightarrow> jsval"

fun truthy :: "jsval \<Rightarrow> bool" where
  "truthy Undefined = False"
| "truthy Null = False"
| "truthy (Bool b) = b"
| "truthy (Num n) = num_truthy n"
| "truthy (Str s) = (s \<noteq> [])"

definition js_or :: "jsval \<Rightarrow> jsval \<Rightarrow> jsval" where
  "js_or a b = (if truthy a then a else b)"

definition is_digit :: "char \<Rightarrow> bool" where
  "is_digit c = (48 \<le> (of_char c :: nat) \<and> (of_char c :: nat) \<le> 57)"

definition digit_value :: "char \<Rightarrow> nat" where
  "digit_value c = of_char c - 48"

definition is_whitespace :: "char \<Rightarrow> bool" where
  "is_whitespace c = ((of_char c :: nat) \<in> {9, 10, 11, 12, 13, 32, 160})"

definition decimal_value :: "string \<Rightarrow> nat" where
  "decimal_value ds = foldl (\<lambda>a c. 10 * a + digit_value c) 0 ds"

text \<open>
  \<^verbatim>\<open>parseFloat\<close> reads the longest prefix of the trimmed string that is a
  \<^verbatim>\<open>StrDecimalLiteral\<close>: an optional sign, then \<^verbatim>\<open>Infinity\<close> or digits with an
  optional fraction and an optional exponent. \<open>LitDecimal m e\<close> denotes \<open>m * 10 ^ e\<close>.
\<close>

datatype literal = LitInfinity | LitDecimal nat int

definition exponent_part :: "string \<Rightarrow> int" where
  "exponent_part s =
     (if s \<noteq> [] \<and> (hd s = CHR ''e'' \<or> hd s = CHR ''E'') then
        (let r = tl s;
             negative = (r \<noteq> [] \<and> hd r = CHR ''-'');
             r' = (if r \<noteq> [] \<and> (hd r = CHR ''+'' \<or> hd r = CHR ''-'') then tl r else r);
             ds = takeWhile is_digit r'
         in if ds = [] then 0
            else if negative then - int (decimal_value ds) else int (decimal_value ds))
      else 0)"

definition unsigned_literal :: "string \<Rightarrow> literal option" where
  "unsigned_literal s =
     (if take 8 s = ''Infinity'' then Some LitInfinity
      else let ip = takeWhile is_digit s;
               r1 = dropWhile is_digit s;
               dot = (r1 \<noteq> [] \<and> hd r1 = CHR ''.'');
               fp = (if dot then takeWhile is_digit (tl r1) else []);
               r2 = (if dot then dropWhile is_digit (tl r1) else r1)
           in if ip = [] \<and> fp = [] then None
              else Some (LitDecimal (decimal_value (ip @ fp))
                                    (exponent_part r2 - int (length fp))))"

definition parseFloat_string :: "string \<Rightarrow> jsnum" where
  "parseFloat_string s =
     (let t = dropWhile is_whitespace s;
          negative = (t \<noteq> [] \<and> hd t = CHR ''-'');
          u = (if t \<noteq> [] \<and> (hd t = CHR ''+'' \<or> hd t = CHR ''-'') then tl t else t)
      in case unsigned_literal u of
           None \<Rightarrow> NaN
         | Some LitInfinity \<Rightarrow> (if negative then NegInf else PosInf)
         | Some (LitDecimal m e) \<Rightarrow>
             fl ((if negative then - 1 else 1) * of_nat m * pow10 e))"

text \<open>
  \<^verbatim>\<open>parseFloat(v)\<close> first converts \<open>v\<close> to a string. The string of a number reads
  back as that number; \<^verbatim>\<open>"undefined"\<close>, \<^verbatim>\<open>"null"\<close>, \<^verbatim>\<open>"true"\<close> and
  \<^verbatim>\<open>"false"\<close> have no numeric prefix.
\<close>

fun parseFloat :: "jsval \<Rightarrow> jsnum" where
  "parseFloat (Num n) = n"
| "parseFloat (Str s) = parseFloat_string s"
| "parseFloat _ = NaN"

text \<open>\<^verbatim>\<open>String.prototype.toLowerCase\<close> on Latin-1 code units.\<close>

definition lower_char :: "char \<Rightarrow> char" where
  "lower_char c =
     (let n = (of_char c :: nat)
      in if (65 \<le> n \<and> n \<le> 90) \<or> (192 \<le> n \<and> n \<le> 222 \<and> n \<noteq> 215)
         then char_of (n + 32) else c)"

definition toLowerCase :: "string \<Rightarrow> string" where
  "toLowerCase s = map lower_char s"

text \<open>Decimal digits of a natural number, as \<^verbatim>\<open>BigInt.prototype.toString\<close> prints them.\<close>

definition digit_char :: "nat \<Rightarrow> char" where
  "digit_char d = ''0123456789'' ! d"

fun decimal_string :: "nat \<Rightarrow> string" where
  "decimal_string n =
     (if n < 10 then [digit_char n]
      else decimal_string (n div 10) @ [digit_char (n mod 10)])"

declare decimal_string.simps [simp del]

text \<open>
  \<^verbatim>\<open>Number.prototype.toString\<close> in radix 10, as ECMAScript's \<^verbatim>\<open>Number::toString\<close>
  specifies it. For a positive double \<open>x\<close> it takes the least number \<open>k\<close> of digits for which
  some \<open>s\<close> with \<open>k\<close> digits and some \<open>n\<close> give a decimal \<open>s * 10 ^ (n - k)\<close> that reads back as
  \<open>x\<close>; among several such \<open>s\<close> the one closest to \<open>x\<close>, and the even one on a tie. A
  double is always recovered from 17 digits. The digits are printed plain when
  \<open>-5 \<le> n \<le> 21\<close> and in exponent notation otherwise.

  \<open>decimal_exponent x\<close> is the \<open>n\<close> with \<open>10 ^ (n - 1) \<le> x < 10 ^ n\<close>; a decimal that reads back as
  \<open>x\<close> lies within half an ulp of \<open>x\<close>, so its \<open>n\<close> is that one or the next, and its \<open>s\<close>
  is the floor of \<open>x / 10 ^ (n - k)\<close> or the next integer.
\<close>

definition decimal_exponent :: "rat \<Rightarrow> int" where
  "decimal_exponent a =
     (if 1 \<le> a then int (floorlog 10 (nat \<lfloor>a\<rfloor>))
      else 1 - int (floorlog 10 (nat (\<lceil>1 / a\<rceil> - 1))))"

definition reads_back :: "rat \<Rightarrow> nat \<Rightarrow> int \<Rightarrow> int \<Rightarrow> bool" where
  "reads_back x k n s =
     (10 ^ (k - 1) \<le> s \<and> s < 10 ^ k \<and> fl (of_int s * pow10 (n - int k)) = Fin x)"

definition digit_candidates :: "rat \<Rightarrow> nat \<Rightarrow> int \<Rightarrow> (int \<times> int) list" where
  "digit_candidates x k n =
     (let f = \<lfloor>x / pow10 (n - int k)\<rfloor>
      in map (\<lambda>s. (s, n)) (filter (reads_back x k n) [f, f + 1]))"

definition closer :: "rat \<Rightarrow> nat \<Rightarrow> int \<times> int \<Rightarrow> int \<times> int \<Rightarrow> int \<times> int" where
  "closer x k c d =
     (let dc = \<bar>of_int (fst c) * pow10 (snd c - int k) - x\<bar>;
          dd = \<bar>of_int (fst d) * pow10 (snd d - int k) - x\<bar>
      in if dc < dd then c else if dd < dc then d else if even (fst c) then c else d)"

fun shortest_digits :: "rat \<Rightarrow> nat list \<Rightarrow> int \<times> int \<times> nat" where
  "shortest_digits x [] =
     (round_half_even (x / pow10 (decimal_exponent x - 17)), decimal_exponent x, 17)"
| "shortest_digits x (k # ks) =
     (case digit_candidates x k (decimal_exponent x) @
           digit_candidates x k (decimal_exponent x + 1) of
        [] \<Rightarrow> shortest_digits x ks
      | c # cs \<Rightarrow> (case foldl (closer x k) c cs of (s, n) \<Rightarrow> (s, n, k)))"

fun format_digits :: "int \<times> int \<times> nat \<Rightarrow> string" where
  "format_digits (s, n, k) =
     (let ds = decimal_string (nat s) in
      if - 5 \<le> n \<and> n \<le> 21 then
        (if int k \<le> n then ds @ replicate (nat (n - int k)) (CHR ''0'')
         else if 0 < n then take (nat n) ds @ ''.'' @ drop (nat n) ds
         else ''0.'' @ replicate (nat (- n)) (CHR ''0'') @ ds)
      else
        (let e = n - 1;
             es = (if 0 \<le> e then ''+'' else ''-'') @ decimal_string (nat \<bar>e\<bar>)
         in if k = 1 then ds @ ''e'' @ es
            else take 1 ds @ ''.'' @ drop 1 ds @ ''e'' @ es))"

fun number_toString :: "jsnum \<Rightarrow> string" where
  "number_toString NaN = ''NaN''"
| "number_toString PosInf = ''Infinity''"
| "number_toString NegInf = ''-Infinity''"
| "number_toString (Fin q) =
     (if q = 0 then ''0''
      else (if q < 0 then ''-'' else []) @
           format_digits
             (shortest_digits \<bar>q\<bar>
                [1, 2, 3, 4, 5, 6, 7, 8, 9, 10, 11, 12, 13, 14, 15, 16, 17]))"

text \<open>The literals \<^verbatim>\<open>0.002\<close>, \<^verbatim>\<open>0.01\<close>, \<^verbatim>\<open>3450\<close> and \<^verbatim>\<open>100\<close> of the source.\<close>

definition lit_0_002 :: jsnum where
  "lit_0_002 = fl (2 / 1000)"

definition lit_0_01 :: jsnum where
  "lit_0_01 = fl (1 / 100)"

definition lit_3450 :: jsnum where
  "lit_3450 = Fin 3450"

definition lit_100 :: jsnum where
  "lit_100 = Fin 100"

section \<open>Errors, responses and the collaborators\<close>

text \<open>A thrown error, with its \<^verbatim>\<open>message\<close> and its \<^verbatim>\<open>code\<close> (often undefined).\<close>

datatype jserror = JsError (error_message: string) (error_code: jsval)

definition TypeError :: "string \<Rightarrow> jserror" where
  "TypeError msg = JsError msg Undefined"

text \<open>The object handed to \<^verbatim>\<open>res.json\<close>.\<close>

datatype json = JVal jsval | JObj "(string \<times> json) list" | JArr "json list"

definition jstr :: "string \<Rightarrow> json" where
  "jstr s = JVal (Str s)"

definition jnum :: "jsnum \<Rightarrow> json" where
  "jnum n = JVal (Num n)"

definition jnat :: "nat \<Rightarrow> json" where
  "jnat n = JVal (Num (Fin (of_nat n)))"

definition jbool :: "bool \<Rightarrow> json" where
  "jbool b = JVal (Bool b)"

text \<open>
  What a handler does with a request: it answers with a status and a JSON body, or an
  error leaves the handler uncaught and the handler sends no answer.
\<close>

datatype outcome = Response nat "(string \<times> json) list" | Unhandled jserror

record feeData =
  gasPrice :: "nat option"

text \<open>The transaction object built by the transfer handlers.\<close>

record tx =
  tx_to :: jsval
  tx_value :: nat
  tx_nonce :: nat
  tx_gasLimit :: nat
  tx_gasPrice :: "nat option"
  tx_chainId :: nat

record receipt =
  rc_status :: jsval
  rc_blockNumber :: nat
  rc_gasUsed :: nat
  rc_gasPrice :: nat
  rc_confirmations :: "jserror + nat"

record txResponse =
  tr_hash :: string
  tr_wait :: "nat \<Rightarrow> jserror + receipt"

record txInfo =
  ti_hash :: string
  ti_from :: string
  ti_to :: jsval
  ti_value :: nat
  ti_gasPrice :: "nat option"
  ti_nonce :: nat
  ti_blockNumber :: jsval

text \<open>
  The wallet, the provider and the library functions of \<^verbatim>\<open>ethers\<close>, with the two
  number printers of the runtime, are parameters: each yields a value or throws
  (\<^verbatim>\<open>wait(1)\<close> yields a receipt or throws). One request calls each of them at most
  once with the same arguments, so a function per request describes the node.
\<close>

record env =
  wallet_address :: string
  isAddress :: "jsval \<Rightarrow> bool"
  formatEther :: "nat \<Rightarrow> string"
  formatUnits :: "nat option \<Rightarrow> string \<Rightarrow> jserror + string"
  parseEther :: "string \<Rightarrow> jserror + nat"
  numberToString :: "jsnum \<Rightarrow> string"
  toFixed :: "jsnum \<Rightarrow> nat \<Rightarrow> string"
  getBalance :: "string \<Rightarrow> jserror + nat"
  getFeeData :: "jserror + feeData"
  getTransactionCount :: "string \<Rightarrow> string option \<Rightarrow> jserror + nat"
  signTransaction :: "tx \<Rightarrow> jserror + string"
  broadcastTransaction :: "string \<Rightarrow> jserror + txResponse"
  signMessage :: "jsval \<Rightarrow> jserror + string"
  getTransaction :: "string \<Rightarrow> jserror + txInfo option"
  getTransactionReceipt :: "string \<Rightarrow> jserror + receipt option"
  estimateGas :: "string \<Rightarrow> jsval \<Rightarrow> nat \<Rightarrow> jserror + nat"

text \<open>The calls to the signer and to the provider that a handler makes, in order.\<close>

datatype call =
    GetBalance string
  | GetFeeData
  | GetTransactionCount string "string option"
  | SignTransaction tx
  | BroadcastTransaction string
  | Wait string nat
  | SignMessage jsval
  | GetTransaction string
  | GetTransactionReceipt string
  | Confirmations
  | EstimateGas string jsval nat

text \<open>
  A computation inside a handler: the calls made so far, and a value or the error thrown.
\<close>

type_synonym 'a io = "call list \<times> (jserror + 'a)"

definition returns :: "'a \<Rightarrow> 'a io" where
  "returns x = ([], Inr x)"

definition eval :: "jserror + 'a \<Rightarrow> 'a io" where
  "eval r = ([], r)"

definition await :: "call \<Rightarrow> jserror + 'a \<Rightarrow> 'a io" where
  "await c r = ([c], r)"

definition io_bind :: "'a io \<Rightarrow> ('a \<Rightarrow> 'b io) \<Rightarrow> 'b io" where
  "io_bind m f =
     (case m of
        (t, Inl e) \<Rightarrow> (t, Inl e)
      | (t, Inr x) \<Rightarrow> (case f x of (t', r) \<Rightarrow> (t @ t', r)))"

text \<open>A body inside \<^verbatim>\<open>try { } catch (error) { }\<close>, and a body with no handler.\<close>

definition try_catch :: "outcome io \<Rightarrow> (jserror \<Rightarrow> outcome) \<Rightarrow> call list \<times> outcome" where
  "try_catch m h = (case m of (t, Inl e) \<Rightarrow> (t, h e) | (t, Inr r) \<Rightarrow> (t, r))"

definition no_catch :: "outcome io \<Rightarrow> call list \<times> outcome" where
  "no_catch m = (case m of (t, Inl e) \<Rightarrow> (t, Unhandled e) | (t, Inr r) \<Rightarrow> (t, r))"

definition provider_getBalance :: "env \<Rightarrow> string \<Rightarrow> nat io" where
  "provider_getBalance env a = await (GetBalance a) (getBalance env a)"

definition provider_getFeeData :: "env \<Rightarrow> feeData io" where
  "provider_getFeeData env = await GetFeeData (getFeeData env)"

definition provider_getTransactionCount :: "env \<Rightarrow> string \<Rightarrow> string option \<Rightarrow> nat io" where
  "provider_getTransactionCount env a tag =
     await (GetTransactionCount a tag) (getTransactionCount env a tag)"

definition wallet_signTransaction :: "env \<Rightarrow> tx \<Rightarrow> string io" where
  "wallet_signTransaction env t = await (SignTransaction t) (signTransaction env t)"

definition provider_broadcastTransaction :: "env \<Rightarrow> string \<Rightarrow> txResponse io" where
  "provider_broadcastTransaction env signed =
     await (BroadcastTransaction signed) (broadcastTransaction env signed)"

definition txResponse_wait :: "txResponse \<Rightarrow> nat \<Rightarrow> receipt io" where
  "txResponse_wait r confirms = await (Wait (tr_hash r) confirms) (tr_wait r confirms)"

text \<open>
  The method calls \<^verbatim>\<open>v.toLowerCase()\<close> and \<^verbatim>\<open>v.toString()\<close> on a value of any
  type; the messages are those of V8.
\<close>

fun method_toLowerCase :: "string \<Rightarrow> jsval \<Rightarrow> jserror + string" where
  "method_toLowerCase name (Str s) = Inr (toLowerCase s)"
| "method_toLowerCase name Undefined =
     Inl (TypeError ''Cannot read properties of undefined (reading 'toLowerCase')'')"
| "method_toLowerCase name Null =
     Inl (TypeError ''Cannot read properties of null (reading 'toLowerCase')'')"
| "method_toLowerCase name _ = Inl (TypeError (name @ ''.toLowerCase is not a function''))"

fun method_toString :: "env \<Rightarrow> jsval \<Rightarrow> jserror + string" where
  "method_toString env (Str s) = Inr s"
| "method_toString env (Num n) = Inr (numberToString env n)"
| "method_toString env (Bool b) = Inr (if b then ''true'' else ''false'')"
| "method_toString env Undefined =
     Inl (TypeError ''Cannot read properties of undefined (reading 'toString')'')"
| "method_toString env Null =
     Inl (TypeError ''Cannot read properties of null (reading 'toString')'')"

section \<open>The request handlers\<close>

text \<open>
  Each handler yields the calls it made and its outcome. Writing to the console is not
  modelled, except where the logged expression itself can throw.
\<close>

subsection \<open>\<^verbatim>\<open>POST /withdraw\<close>\<close>

definition withdraw :: "env \<Rightarrow> body \<Rightarrow> call list \<times> outcome" where
  "withdraw env b =
     (let toAddress = b ''toAddress''; amountETH = b ''amountETH'' in
      try_catch
        (if \<not> truthy toAddress \<or> \<not> truthy amountETH then
           returns (Response 400 [(''error'', jstr ''Missing parameters'')])
         else if \<not> isAddress env toAddress then
           returns (Response 400 [(''error'', jstr ''Invalid address'')])
         else
           io_bind (eval (method_toLowerCase ''toAddress'' toAddress)) (\<lambda>lowered.
           if lowered = toLowerCase (wallet_address env) then
             returns (Response 400 [(''error'', jstr ''Cannot send to backend wallet'')])
           else
             io_bind (provider_getBalance env (wallet_address env)) (\<lambda>balance.
             let balanceETH = formatEther env balance in
             if num_lt (parseFloat (Str balanceETH)) (parseFloat amountETH) then
               returns (Response 400
                 [(''error'', jstr ''Insufficient backend balance''),
                  (''balance'', jstr balanceETH)])
             else
               io_bind (provider_getFeeData env) (\<lambda>feeData.
               io_bind (provider_getTransactionCount env (wallet_address env) (Some ''pending''))
                 (\<lambda>nonce.
               io_bind (eval (method_toString env amountETH)) (\<lambda>amountString.
               io_bind (eval (parseEther env amountString)) (\<lambda>wei.
               let t = \<lparr>tx_to = toAddress, tx_value = wei, tx_nonce = nonce,
                        tx_gasLimit = 21000, tx_gasPrice = gasPrice feeData, tx_chainId = 1\<rparr> in
               io_bind (eval (formatUnits env (gasPrice feeData) ''gwei'')) (\<lambda>logged.
               io_bind (wallet_signTransaction env t) (\<lambda>signedTx.
               io_bind (provider_broadcastTransaction env signedTx) (\<lambda>txResponse.
               io_bind (txResponse_wait txResponse 1) (\<lambda>receipt.
               returns (Response 200
                 [(''success'', jbool True),
                  (''txHash'', jstr (tr_hash txResponse)),
                  (''from'', jstr (wallet_address env)),
                  (''to'', JVal toAddress),
                  (''amount'', JVal amountETH),
                  (''blockNumber'', jnat (rc_blockNumber receipt)),
                  (''gasUsed'', jstr (decimal_string (rc_gasUsed receipt))),
                  (''effectiveGasPrice'', jstr (decimal_string (rc_gasPrice receipt)))]))))))))))))
        (\<lambda>error. Response 500
           [(''error'', jstr (error_message error)), (''code'', JVal (error_code error))]))"

subsection \<open>\<^verbatim>\<open>POST /sign-message\<close>, \<^verbatim>\<open>GET /transaction/:hash\<close>, \<^verbatim>\<open>GET /balance\<close>, \<^verbatim>\<open>POST /estimate-gas\<close>\<close>

definition sign_message :: "env \<Rightarrow> body \<Rightarrow> call list \<times> outcome" where
  "sign_message env b =
     (let message = b ''message'' in
      try_catch
        (io_bind (await (SignMessage message) (signMessage env message)) (\<lambda>signature.
         returns (Response 200
           [(''message'', JVal message),
            (''signature'', jstr signature),
            (''signer'', jstr (wallet_address env))])))
        (\<lambda>error. Response 500 [(''error'', jstr (error_message error))]))"

definition transaction_json :: "env \<Rightarrow> txInfo option \<Rightarrow> json" where
  "transaction_json env t =
     (case t of
        None \<Rightarrow> JVal Null
      | Some i \<Rightarrow> JObj
          [(''hash'', jstr (ti_hash i)),
           (''from'', jstr (ti_from i)),
           (''to'', JVal (ti_to i)),
           (''value'', jstr (formatEther env (ti_value i))),
           (''gasPrice'', (case ti_gasPrice i of
                            None \<Rightarrow> JVal Undefined
                          | Some g \<Rightarrow> jstr (decimal_string g))),
           (''nonce'', jnat (ti_nonce i)),
           (''blockNumber'', JVal (ti_blockNumber i))])"

definition receipt_json :: "receipt option \<Rightarrow> json io" where
  "receipt_json r =
     (case r of
        None \<Rightarrow> returns (JVal Null)
      | Some rc \<Rightarrow>
          io_bind (await Confirmations (rc_confirmations rc)) (\<lambda>confirmations.
          returns (JObj
            [(''status'', JVal (rc_status rc)),
             (''blockNumber'', jnat (rc_blockNumber rc)),
             (''gasUsed'', jstr (decimal_string (rc_gasUsed rc))),
             (''confirmations'', jnat confirmations)])))"

definition transaction :: "env \<Rightarrow> string \<Rightarrow> call list \<times> outcome" where
  "transaction env hash =
     try_catch
       (io_bind (await (GetTransaction hash) (getTransaction env hash)) (\<lambda>t.
        io_bind (await (GetTransactionReceipt hash) (getTransactionReceipt env hash)) (\<lambda>r.
        io_bind (receipt_json r) (\<lambda>rj.
        returns (Response 200
          [(''transaction'', transaction_json env t), (''receipt'', rj)])))))
       (\<lambda>error. Response 500 [(''error'', jstr (error_message error))])"

definition balance :: "env \<Rightarrow> call list \<times> outcome" where
  "balance env =
     try_catch
       (io_bind (provider_getBalance env (wallet_address env)) (\<lambda>bal.
        io_bind (provider_getTransactionCount env (wallet_address env) None) (\<lambda>nonce.
        io_bind (provider_getFeeData env) (\<lambda>feeData.
        io_bind (eval (formatUnits env (gasPrice feeData) ''gwei'')) (\<lambda>gwei.
        returns (Response 200
          [(''address'', jstr (wallet_address env)),
           (''balance'', jstr (formatEther env bal)),
           (''nonce'', jnat nonce),
           (''gasPrice'', jstr (gwei @ '' gwei''))]))))))
       (\<lambda>error. Response 500 [(''error'', jstr (error_message error))])"

text \<open>\<^verbatim>\<open>gasEstimate * feeData.gasPrice\<close> on a BigInt and \<^verbatim>\<open>null\<close> throws.\<close>

definition bigint_times :: "nat \<Rightarrow> nat option \<Rightarrow> jserror + nat" where
  "bigint_times a b =
     (case b of
        None \<Rightarrow> Inl (TypeError
                 ''Cannot mix BigInt and other types, use explicit conversions'')
      | Some g \<Rightarrow> Inr (a * g))"

definition estimate_gas :: "env \<Rightarrow> body \<Rightarrow> call list \<times> outcome" where
  "estimate_gas env b =
     (let toAddress = b ''toAddress''; amountETH = b ''amountETH'' in
      try_catch
        (io_bind (eval (method_toString env amountETH)) (\<lambda>amountString.
         io_bind (eval (parseEther env amountString)) (\<lambda>wei.
         io_bind (await (EstimateGas (wallet_address env) toAddress wei)
                    (estimateGas env (wallet_address env) toAddress wei)) (\<lambda>gasEstimate.
         io_bind (provider_getFeeData env) (\<lambda>feeData.
         io_bind (eval (bigint_times gasEstimate (gasPrice feeData))) (\<lambda>gasCost.
         io_bind (eval (formatUnits env (gasPrice feeData) ''gwei'')) (\<lambda>gwei.
         returns (Response 200
           [(''gasLimit'', jstr (decimal_string gasEstimate)),
            (''gasPrice'', jstr (gwei @ '' gwei'')),
            (''totalCost'', jstr (formatEther env gasCost @ '' ETH'')),
            (''totalCostUSD'', jstr (toFixed env
               (num_mul (parseFloat (Str (formatEther env gasCost))) lit_3450) 2))]))))))))
        (\<lambda>error. Response 500 [(''error'', jstr (error_message error))]))"

subsection \<open>The earnings counter: \<^verbatim>\<open>POST /credit-earnings\<close> and \<^verbatim>\<open>GET /earnings\<close>\<close>

text \<open>
  The variable \<^verbatim>\<open>earningsBalance\<close> is the only state of the process; the handler takes
  its value and yields the new one.
\<close>

definition credit_earnings :: "jsnum \<Rightarrow> body \<Rightarrow> jsnum \<times> call list \<times> outcome" where
  "credit_earnings earningsBalance b =
     (let amountUSD = b ''amountUSD'';
          earningsBalance' = num_add earningsBalance (num_or (parseFloat amountUSD) (Fin 0))
      in (earningsBalance',
          try_catch
            (returns (Response 200
               [(''success'', jbool True), (''newBalance'', jnum earningsBalance')]))
            (\<lambda>error. Response 500 [(''error'', jstr (error_message error))])))"

definition earnings :: "env \<Rightarrow> jsnum \<Rightarrow> call list \<times> outcome" where
  "earnings env earningsBalance =
     no_catch
       (io_bind (provider_getBalance env (wallet_address env)) (\<lambda>bal.
        returns (Response 200
          [(''earningsUSD'', jnum earningsBalance),
           (''backendBalanceETH'', jstr (formatEther env bal)),
           (''backendBalanceUSD'',
              jnum (num_mul (parseFloat (Str (formatEther env bal))) lit_3450))])))"

subsection \<open>\<^verbatim>\<open>POST /convert-earnings-to-eth\<close>\<close>

definition convert_earnings_to_eth :: "env \<Rightarrow> body \<Rightarrow> call list \<times> outcome" where
  "convert_earnings_to_eth env b =
     try_catch
       (let amountETH = b ''amountETH''; amountUSD = b ''amountUSD'';
            treasury = b ''treasury''; to = b ''to''; toAddress = b ''toAddress'';
            destination = js_or (js_or treasury to) toAddress;
            ethAmount = num_or (parseFloat amountETH) (num_div (parseFloat amountUSD) lit_3450)
        in if \<not> truthy destination then
             returns (Response 400 [(''error'', jstr ''Missing destination address'')])
           else
             io_bind (provider_getBalance env (wallet_address env)) (\<lambda>bal.
             let balanceETH = parseFloat (Str (formatEther env bal)) in
             if num_lt balanceETH (num_add ethAmount lit_0_002) then
               returns (Response 400
                 [(''error'', jstr ''Insufficient backend balance for conversion''),
                  (''balance'', jnum balanceETH),
                  (''required'', jnum (num_add ethAmount lit_0_002))])
             else
               io_bind (provider_getFeeData env) (\<lambda>feeData.
               io_bind (provider_getTransactionCount env (wallet_address env) (Some ''pending''))
                 (\<lambda>nonce.
               io_bind (eval (parseEther env (numberToString env ethAmount))) (\<lambda>wei.
               let t = \<lparr>tx_to = destination, tx_value = wei, tx_nonce = nonce,
                        tx_gasLimit = 21000, tx_gasPrice = gasPrice feeData, tx_chainId = 1\<rparr> in
               io_bind (wallet_signTransaction env t) (\<lambda>signedTx.
               io_bind (provider_broadcastTransaction env signedTx) (\<lambda>txResponse.
               io_bind (txResponse_wait txResponse 1) (\<lambda>receipt.
               returns (Response 200
                 [(''success'', jbool True),
                  (''txHash'', jstr (tr_hash txResponse)),
                  (''from'', jstr (wallet_address env)),
                  (''to'', JVal destination),
                  (''amount'', jnum ethAmount),
                  (''amountUSD'', jnum (num_mul ethAmount lit_3450)),
                  (''blockNumber'', jnat (rc_blockNumber receipt)),
                  (''gasUsed'', jstr (decimal_string (rc_gasUsed receipt)))])))))))))
       (\<lambda>error. Response 500 [(''error'', jstr (error_message error))])"

subsection \<open>\<^verbatim>\<open>POST /fund-from-earnings\<close>\<close>

definition fund_from_earnings :: "env \<Rightarrow> body \<Rightarrow> call list \<times> outcome" where
  "fund_from_earnings env b =
     try_catch
       (let amountETH = b ''amountETH''; amountUSD = b ''amountUSD'';
            treasury = b ''treasury''; to = b ''to''; toAddress = b ''toAddress'';
            destination = js_or (js_or (js_or treasury to) toAddress) (Str (wallet_address env));
            ethAmount = num_or (num_or (parseFloat amountETH)
                                       (num_div (parseFloat amountUSD) lit_3450)) lit_0_01
        in io_bind (provider_getBalance env (wallet_address env)) (\<lambda>bal.
           let balanceETH = parseFloat (Str (formatEther env bal)) in
           if num_lt balanceETH (num_add ethAmount lit_0_002) then
             returns (Response 400
               [(''error'', jstr ''Insufficient backend balance''),
                (''balance'', jnum balanceETH)])
           else
             io_bind (provider_getFeeData env) (\<lambda>feeData.
             io_bind (provider_getTransactionCount env (wallet_address env) (Some ''pending''))
               (\<lambda>nonce.
             io_bind (eval (parseEther env (numberToString env ethAmount))) (\<lambda>wei.
             let t = \<lparr>tx_to = destination, tx_value = wei, tx_nonce = nonce,
                      tx_gasLimit = 21000, tx_gasPrice = gasPrice feeData, tx_chainId = 1\<rparr> in
             io_bind (wallet_signTransaction env t) (\<lambda>signedTx.
             io_bind (provider_broadcastTransaction env signedTx) (\<lambda>txResponse.
             io_bind (txResponse_wait txResponse 1) (\<lambda>receipt.
             returns (Response 200
               [(''success'', jbool True),
                (''txHash'', jstr (tr_hash txResponse)),
                (''from'', jstr (wallet_address env)),
                (''to'', JVal destination),
                (''amount'', jnum ethAmount),
                (''blockNumber'', jnat (rc_blockNumber receipt))])))))))))
       (\<lambda>error. Response 500 [(''error'', jstr (error_message error))])"

subsection \<open>\<^verbatim>\<open>POST /withdraw-profits-to-treasury\<close>\<close>

definition withdraw_profits_to_treasury :: "env \<Rightarrow> body \<Rightarrow> call list \<times> outcome" where
  "withdraw_profits_to_treasury env b =
     (let treasury = b ''treasury''; to = b ''to''; toAddress = b ''toAddress'';
          amountETH = b ''amountETH''; percentage = b ''percentage'';
          destination = js_or (js_or treasury to) toAddress
      in try_catch
           (io_bind (provider_getBalance env (wallet_address env)) (\<lambda>bal.
            let balanceETH = parseFloat (Str (formatEther env bal));
                ethAmount =
                  (if truthy percentage
                   then num_sub (num_div (num_mul balanceETH (parseFloat percentage)) lit_100)
                                lit_0_002
                   else num_or (parseFloat amountETH) lit_0_01)
            in if num_lt balanceETH (num_add ethAmount lit_0_002) then
                 returns (Response 400 [(''error'', jstr ''Insufficient balance'')])
               else
                 io_bind (provider_getFeeData env) (\<lambda>feeData.
                 io_bind (provider_getTransactionCount env (wallet_address env) (Some ''pending''))
                   (\<lambda>nonce.
                 io_bind (eval (parseEther env (numberToString env ethAmount))) (\<lambda>wei.
                 let t = \<lparr>tx_to = destination, tx_value = wei, tx_nonce = nonce,
                          tx_gasLimit = 21000, tx_gasPrice = gasPrice feeData,
                          tx_chainId = 1\<rparr> in
                 io_bind (wallet_signTransaction env t) (\<lambda>signedTx.
                 io_bind (provider_broadcastTransaction env signedTx) (\<lambda>txResponse.
                 io_bind (txResponse_wait txResponse 1) (\<lambda>receipt.
                 returns (Response 200
                   [(''success'', jbool True),
                    (''txHash'', jstr (tr_hash txResponse)),
                    (''amount'', jnum ethAmount),
                    (''blockNumber'', jnat (rc_blockNumber receipt))])))))))))
           (\<lambda>error. Response 500 [(''error'', jstr (error_message error))]))"

subsection \<open>\<^verbatim>\<open>POST /claim-mev-profits\<close>\<close>

definition claim_mev_profits :: "env \<Rightarrow> body \<Rightarrow> call list \<times> outcome" where
  "claim_mev_profits env b =
     (let to = b ''to''; toAddress = b ''toAddress''; treasury = b ''treasury'';
          amountETH = b ''amountETH'';
          destination = js_or (js_or to toAddress) treasury;
          ethAmount = num_or (parseFloat amountETH) lit_0_01
      in try_catch
           (io_bind (provider_getBalance env (wallet_address env)) (\<lambda>bal.
            let balanceETH = parseFloat (Str (formatEther env bal)) in
            if num_lt balanceETH (num_add ethAmount lit_0_002) then
              returns (Response 400 [(''error'', jstr ''Insufficient balance'')])
            else
              io_bind (provider_getFeeData env) (\<lambda>feeData.
              io_bind (provider_getTransactionCount env (wallet_address env) (Some ''pending''))
                (\<lambda>nonce.
              io_bind (eval (parseEther env (numberToString env ethAmount))) (\<lambda>wei.
              let t = \<lparr>tx_to = destination, tx_value = wei, tx_nonce = nonce,
                       tx_gasLimit = 21000, tx_gasPrice = gasPrice feeData, tx_chainId = 1\<rparr> in
              io_bind (wallet_signTransaction env t) (\<lambda>signedTx.
              io_bind (provider_broadcastTransaction env signedTx) (\<lambda>txResponse.
              io_bind (txResponse_wait txResponse 1) (\<lambda>receipt.
              returns (Response 200
                [(''success'', jbool True),
                 (''txHash'', jstr (tr_hash txResponse)),
                 (''amount'', jnum ethAmount),
                 (''blockNumber'', jnat (rc_blockNumber receipt))])))))))))
           (\<lambda>error. Response 500 [(''error'', jstr (error_message error))]))"

subsection \<open>\<^verbatim>\<open>GET /status\<close> and \<^verbatim>\<open>GET /health\<close>\<close>

definition BACKEND_URL :: string where
  "BACKEND_URL = ''https://ethers-production.up.railway.app''"

definition status :: "env \<Rightarrow> call list \<times> outcome" where
  "status env =
     ([], Response 200
        [(''status'', jstr ''online''),
         (''wallet'', jstr (wallet_address env)),
         (''endpoints'', JArr (map jstr
            [''/withdraw'', ''/convert-earnings-to-eth'', ''/fund-from-earnings'',
             ''/withdraw-profits-to-treasury'', ''/claim-mev-profits'', ''/credit-earnings'',
             ''/earnings'', ''/balance'']))])"

definition health :: "env \<Rightarrow> call list \<times> outcome" where
  "health env =
     ([], Response 200
        [(''status'', jstr ''online''),
         (''wallet'', jstr (wallet_address env)),
         (''ethersVersion'', jstr ''6.9.0''),
         (''backendUrl'', jstr BACKEND_URL)])"

subsection \<open>The routes\<close>

datatype request =
    PostWithdraw body
  | PostSignMessage body
  | GetTransactionByHash string
  | GetBalanceOfWallet
  | PostEstimateGas body
  | PostCreditEarnings body
  | PostConvertEarningsToEth body
  | PostFundFromEarnings body
  | PostWithdrawProfitsToTreasury body
  | PostClaimMevProfits body
  | GetEarnings
  | GetStatus
  | GetHealth

text \<open>
  One request against the process: the value of \<^verbatim>\<open>earningsBalance\<close> before, and the
  value after with the calls and the outcome.
\<close>

fun handle :: "env \<Rightarrow> jsnum \<Rightarrow> request \<Rightarrow> jsnum \<times> call list \<times> outcome" where
  "handle env earningsBalance (PostWithdraw b) = (earningsBalance, withdraw env b)"
| "handle env earningsBalance (PostSignMessage b) = (earningsBalance, sign_message env b)"
| "handle env earningsBalance (GetTransactionByHash h) = (earningsBalance, transaction env h)"
| "handle env earningsBalance GetBalanceOfWallet = (earningsBalance, balance env)"
| "handle env earningsBalance (PostEstimateGas b) = (earningsBalance, estimate_gas env b)"
| "handle env earningsBalance (PostCreditEarnings b) = credit_earnings earningsBalance b"
| "handle env earningsBalance (PostConvertEarningsToEth b) =
     (earningsBalance, convert_earnings_to_eth env b)"
| "handle env earningsBalance (PostFundFromEarnings b) =
     (earningsBalance, fund_from_earnings env b)"
| "handle env earningsBalance (PostWithdrawProfitsToTreasury b) =
     (earningsBalance, withdraw_profits_to_treasury env b)"
| "handle env earningsBalance (PostClaimMevProfits b) =
     (earningsBalance, claim_mev_profits env b)"
| "handle env earningsBalance GetEarnings = (earningsBalance, earnings env earningsBalance)"
| "handle env earningsBalance GetStatus = (earningsBalance, status env)"
| "handle env earningsBalance GetHealth = (earningsBalance, health env)"

text \<open>
  A run of the process: the counter starts at \<^verbatim>\<open>0\<close> and the requests are served one
  after the other, each against the node as it is then.
\<close>

fun serve :: "jsnum \<Rightarrow> (env \<times> request) list \<Rightarrow> jsnum" where
  "serve earningsBalance [] = earningsBalance"
| "serve earningsBalance ((env, r) # rs) = serve (fst (handle env earningsBalance r)) rs"

definition initial_earningsBalance :: jsnum where
  "initial_earningsBalance = Fin 0"

section \<open>The shared core that the specification describes\<close>

text \<open>
  Section 4.2 of the specification asks for one transfer operation, parameterized by how
  a route resolves destination and amount. \<open>submit\<close> follows its paragraphs
  "Construction" and "Submission": fetch the fee data and the pending nonce, build the
  intent with gas limit 21000 and chain id 1, sign, broadcast, wait for one confirmation.
\<close>

definition submit :: "env \<Rightarrow> jsval \<Rightarrow> string \<Rightarrow> (txResponse \<times> receipt) io" where
  "submit env destination amountString =
     io_bind (provider_getFeeData env) (\<lambda>feeData.
     io_bind (provider_getTransactionCount env (wallet_address env) (Some ''pending''))
       (\<lambda>nonce.
     io_bind (eval (parseEther env amountString)) (\<lambda>wei.
     io_bind (wallet_signTransaction env
                \<lparr>tx_to = destination, tx_value = wei, tx_nonce = nonce, tx_gasLimit = 21000,
                 tx_gasPrice = gasPrice feeData, tx_chainId = 1\<rparr>) (\<lambda>signedTx.
     io_bind (provider_broadcastTransaction env signedTx) (\<lambda>txResponse.
     io_bind (txResponse_wait txResponse 1) (\<lambda>receipt.
     returns (txResponse, receipt)))))))"

text \<open>
  \<open>transfer_core\<close> is the one operation: query the balance, let the route's resolution
  either reject or name destination and amount, submit, answer with the route's success
  response, and turn any thrown error into the route's failure response.
\<close>

definition transfer_core ::
  "env \<Rightarrow> (nat \<Rightarrow> outcome + jsval \<times> string) \<Rightarrow>
   (nat \<Rightarrow> txResponse \<Rightarrow> receipt \<Rightarrow> outcome) \<Rightarrow> (jserror \<Rightarrow> outcome) \<Rightarrow>
   call list \<times> outcome" where
  "transfer_core env resolve success failure =
     try_catch
       (io_bind (provider_getBalance env (wallet_address env)) (\<lambda>bal.
        case resolve bal of
          Inl rejection \<Rightarrow> returns rejection
        | Inr (destination, amountString) \<Rightarrow>
            io_bind (submit env destination amountString) (\<lambda>(txResponse, receipt).
            returns (success bal txResponse receipt))))
       failure"

definition failure_500 :: "jserror \<Rightarrow> outcome" where
  "failure_500 error = Response 500 [(''error'', jstr (error_message error))]"

text \<open>
  The resolutions and success responses of the five routes, read off the handlers. In
  \<open>withdraw_resolve\<close> the amount has passed the presence check, so it prints; the
  other branch is never taken.
\<close>

definition withdraw_resolve :: "env \<Rightarrow> body \<Rightarrow> nat \<Rightarrow> outcome + jsval \<times> string" where
  "withdraw_resolve env b bal =
     (let balanceETH = formatEther env bal in
      if num_lt (parseFloat (Str balanceETH)) (parseFloat (b ''amountETH'')) then
        Inl (Response 400
          [(''error'', jstr ''Insufficient backend balance''), (''balance'', jstr balanceETH)])
      else Inr (b ''toAddress'',
                (case method_toString env (b ''amountETH'') of Inr s \<Rightarrow> s | Inl e \<Rightarrow> [])))"

definition withdraw_success :: "env \<Rightarrow> body \<Rightarrow> txResponse \<Rightarrow> receipt \<Rightarrow> outcome" where
  "withdraw_success env b txResponse receipt =
     Response 200
       [(''success'', jbool True),
        (''txHash'', jstr (tr_hash txResponse)),
        (''from'', jstr (wallet_address env)),
        (''to'', JVal (b ''toAddress'')),
        (''amount'', JVal (b ''amountETH'')),
        (''blockNumber'', jnat (rc_blockNumber receipt)),
        (''gasUsed'', jstr (decimal_string (rc_gasUsed receipt))),
        (''effectiveGasPrice'', jstr (decimal_string (rc_gasPrice receipt)))]"

definition withdraw_failure :: "jserror \<Rightarrow> outcome" where
  "withdraw_failure error =
     Response 500 [(''error'', jstr (error_message error)), (''code'', JVal (error_code error))]"

definition convert_destination :: "body \<Rightarrow> jsval" where
  "convert_destination b = js_or (js_or (b ''treasury'') (b ''to'')) (b ''toAddress'')"

definition convert_amount :: "body \<Rightarrow> jsnum" where
  "convert_amount b =
     num_or (parseFloat (b ''amountETH'')) (num_div (parseFloat (b ''amountUSD'')) lit_3450)"

definition convert_resolve :: "env \<Rightarrow> body \<Rightarrow> nat \<Rightarrow> outcome + jsval \<times> string" where
  "convert_resolve env b bal =
     (let balanceETH = parseFloat (Str (formatEther env bal)) in
      if num_lt balanceETH (num_add (convert_amount b) lit_0_002) then
        Inl (Response 400
          [(''error'', jstr ''Insufficient backend balance for conversion''),
           (''balance'', jnum balanceETH),
           (''required'', jnum (num_add (convert_amount b) lit_0_002))])
      else Inr (convert_destination b, numberToString env (convert_amount b)))"

definition convert_success :: "env \<Rightarrow> body \<Rightarrow> txResponse \<Rightarrow> receipt \<Rightarrow> outcome" where
  "convert_success env b txResponse receipt =
     Response 200
       [(''success'', jbool True),
        (''txHash'', jstr (tr_hash txResponse)),
        (''from'', jstr (wallet_address env)),
        (''to'', JVal (convert_destination b)),
        (''amount'', jnum (convert_amount b)),
        (''amountUSD'', jnum (num_mul (convert_amount b) lit_3450)),
        (''blockNumber'', jnat (rc_blockNumber receipt)),
        (''gasUsed'', jstr (decimal_string (rc_gasUsed receipt)))]"

definition fund_destination :: "env \<Rightarrow> body \<Rightarrow> jsval" where
  "fund_destination env b =
     js_or (js_or (js_or (b ''treasury'') (b ''to'')) (b ''toAddress''))
           (Str (wallet_address env))"

definition fund_amount :: "body \<Rightarrow> jsnum" where
  "fund_amount b =
     num_or (num_or (parseFloat (b ''amountETH''))
                    (num_div (parseFloat (b ''amountUSD'')) lit_3450)) lit_0_01"

definition fund_resolve :: "env \<Rightarrow> body \<Rightarrow> nat \<Rightarrow> outcome + jsval \<times> string" where
  "fund_resolve env b bal =
     (let balanceETH = parseFloat (Str (formatEther env bal)) in
      if num_lt balanceETH (num_add (fund_amount b) lit_0_002) then
        Inl (Response 400
          [(''error'', jstr ''Insufficient backend balance''), (''balance'', jnum balanceETH)])
      else Inr (fund_destination env b, numberToString env (fund_amount b)))"

definition fund_success :: "env \<Rightarrow> body \<Rightarrow> txResponse \<Rightarrow> receipt \<Rightarrow> outcome" where
  "fund_success env b txResponse receipt =
     Response 200
       [(''success'', jbool True),
        (''txHash'', jstr (tr_hash txResponse)),
        (''from'', jstr (wallet_address env)),
        (''to'', JVal (fund_destination env b)),
        (''amount'', jnum (fund_amount b)),
        (''blockNumber'', jnat (rc_blockNumber receipt))]"

definition profits_destination :: "body \<Rightarrow> jsval" where
  "profits_destination b = js_or (js_or (b ''treasury'') (b ''to'')) (b ''toAddress'')"

definition profits_amount :: "env \<Rightarrow> body \<Rightarrow> nat \<Rightarrow> jsnum" where
  "profits_amount env b bal =
     (if truthy (b ''percentage'')
      then num_sub (num_div (num_mul (parseFloat (Str (formatEther env bal)))
                                     (parseFloat (b ''percentage''))) lit_100) lit_0_002
      else num_or (parseFloat (b ''amountETH'')) lit_0_01)"

definition claim_destination :: "body \<Rightarrow> jsval" where
  "claim_destination b = js_or (js_or (b ''to'') (b ''toAddress'')) (b ''treasury'')"

definition claim_amount :: "body \<Rightarrow> jsnum" where
  "claim_amount b = num_or (parseFloat (b ''amountETH'')) lit_0_01"

text \<open>The last two routes answer alike; they differ in destination and amount.\<close>

definition fixed_resolve ::
  "env \<Rightarrow> jsval \<Rightarrow> (nat \<Rightarrow> jsnum) \<Rightarrow> nat \<Rightarrow> outcome + jsval \<times> string" where
  "fixed_resolve env destination amount bal =
     (if num_lt (parseFloat (Str (formatEther env bal))) (num_add (amount bal) lit_0_002) then
        Inl (Response 400 [(''error'', jstr ''Insufficient balance'')])
      else Inr (destination, numberToString env (amount bal)))"

definition fixed_success :: "jsnum \<Rightarrow> txResponse \<Rightarrow> receipt \<Rightarrow> outcome" where
  "fixed_success amount txResponse receipt =
     Response 200
       [(''success'', jbool True),
        (''txHash'', jstr (tr_hash txResponse)),
        (''amount'', jnum amount),
        (''blockNumber'', jnat (rc_blockNumber receipt))]"

section \<open>An example node\<close>

text \<open>
  A concrete wallet and node for the examples below. The library functions are given by
  stand-ins that agree with \<^verbatim>\<open>ethers\<close> on the arguments the examples use:
  \<open>format_units\<close> prints a fixed-point decimal with at least one fraction digit,
  \<open>parse_ether\<close> reads a plain decimal with up to 18 fraction digits, and
  \<open>is_lower_hex_address\<close> accepts \<^verbatim>\<open>0x\<close> followed by 40 digits or lower-case hex
  letters. Numbers are printed by \<open>number_toString\<close>; no example reaches
  \<^verbatim>\<open>toFixed\<close>.
\<close>

definition strip_trailing_zeros :: "string \<Rightarrow> string" where
  "strip_trailing_zeros s = rev (dropWhile (\<lambda>c. c = CHR ''0'') (rev s))"

definition format_units :: "nat \<Rightarrow> nat \<Rightarrow> string" where
  "format_units v decimals =
     (let whole = decimal_string (v div 10 ^ decimals);
          frac = decimal_string (v mod 10 ^ decimals);
          padded = replicate (decimals - length frac) (CHR ''0'') @ frac;
          trimmed = strip_trailing_zeros padded
      in whole @ ''.'' @ (if trimmed = [] then ''0'' else trimmed))"

definition parse_ether :: "string \<Rightarrow> jserror + nat" where
  "parse_ether s =
     (let ip = takeWhile is_digit s;
          r = dropWhile is_digit s;
          fp = (if r \<noteq> [] \<and> hd r = CHR ''.'' then tl r else [])
      in if (ip \<noteq> [] \<or> fp \<noteq> []) \<and> (r = [] \<or> hd r = CHR ''.'') \<and>
            list_all is_digit fp \<and> length fp \<le> 18
         then Inr (decimal_value ip * 10 ^ 18 + decimal_value fp * 10 ^ (18 - length fp))
         else Inl (JsError ''invalid FixedNumber string value'' (Str ''INVALID_ARGUMENT'')))"

definition is_lower_hex :: "char \<Rightarrow> bool" where
  "is_lower_hex c = (is_digit c \<or> (97 \<le> (of_char c :: nat) \<and> (of_char c :: nat) \<le> 102))"

fun is_lower_hex_address :: "jsval \<Rightarrow> bool" where
  "is_lower_hex_address (Str s) =
     (length s = 42 \<and> take 2 s = ''0x'' \<and> list_all is_lower_hex (drop 2 s))"
| "is_lower_hex_address _ = False"

declare is_lower_hex_address.simps [simp del]

definition example_wallet :: string where
  "example_wallet = ''0x1111111111111111111111111111111111111111''"

definition example_destination :: string where
  "example_destination = ''0x2222222222222222222222222222222222222222''"

definition example_receipt :: receipt where
  "example_receipt =
     \<lparr>rc_status = Num (Fin 1), rc_blockNumber = 19000000, rc_gasUsed = 21000,
      rc_gasPrice = 20000000000, rc_confirmations = Inr 1\<rparr>"

definition example_txResponse :: txResponse where
  "example_txResponse = \<lparr>tr_hash = ''0xabc'', tr_wait = (\<lambda>confirms. Inr example_receipt)\<rparr>"

definition node_unreachable :: jserror where
  "node_unreachable = JsError ''could not detect network'' (Str ''NETWORK_ERROR'')"

definition insufficient_funds :: jserror where
  "insufficient_funds =
     JsError ''insufficient funds for intrinsic transaction cost'' (Str ''INSUFFICIENT_FUNDS'')"

text \<open>
  The example node, given what \<^verbatim>\<open>getBalance\<close> and \<^verbatim>\<open>broadcastTransaction\<close>
  answer.
\<close>

definition example_env :: "jserror + nat \<Rightarrow> jserror + txResponse \<Rightarrow> env" where
  "example_env bal broadcast =
     \<lparr>wallet_address = example_wallet,
      isAddress = is_lower_hex_address,
      formatEther = (\<lambda>v. format_units v 18),
      formatUnits = (\<lambda>v unit.
        case v of
          None \<Rightarrow> Inl (JsError ''invalid BigNumberish value'' (Str ''INVALID_ARGUMENT''))
        | Some g \<Rightarrow> Inr (format_units g 9)),
      parseEther = parse_ether,
      numberToString = number_toString,
      toFixed = (\<lambda>n digits. number_toString n),
      getBalance = (\<lambda>a. bal),
      getFeeData = Inr \<lparr>gasPrice = Some 20000000000\<rparr>,
      getTransactionCount = (\<lambda>a tag. Inr 7),
      signTransaction = (\<lambda>t. Inr ''0xf86c''),
      broadcastTransaction = (\<lambda>signed. broadcast),
      signMessage = (\<lambda>m. Inr ''0x5161''),
      getTransaction = (\<lambda>h. Inr None),
      getTransactionReceipt = (\<lambda>h. Inr None),
      estimateGas = (\<lambda>from to v. Inr 21000)\<rparr>"

text \<open>A request body with the given fields; every other field is absent.\<close>

definition body_of :: "(string \<times> jsval) list \<Rightarrow> body" where
  "body_of kvs name = (case map_of kvs name of None \<Rightarrow> Undefined | Some v \<Rightarrow> v)"

text \<open>
  Predicates for the claims about the earnings counter: a counter value that is a number
  \<open>\<ge> 0\<close>, and a request that credits nothing negative.
\<close>

fun non_negative :: "jsnum \<Rightarrow> bool" where
  "non_negative (Fin a) = (0 \<le> a)"
| "non_negative PosInf = True"
| "non_negative NegInf = False"
| "non_negative NaN = False"

fun is_credit :: "request \<Rightarrow> bool" where
  "is_credit (PostCreditEarnings b) = True"
| "is_credit _ = False"

fun credits_non_negative :: "request \<Rightarrow> bool" where
  "credits_non_negative (PostCreditEarnings b) =
     (parseFloat (b ''amountUSD'') = NaN \<or> non_negative (parseFloat (b ''amountUSD'')))"
| "credits_non_negative _ = True"

text \<open>An outcome that is an answer to the client.\<close>

fun answered :: "outcome \<Rightarrow> bool" where
  "answered (Response st body) = True"
| "answered (Unhandled e) = False"

section \<open>Evaluation and unfolding rules\<close>

lemma floor_rat_numeral_div [simp]:
  "\<lfloor>numeral a / numeral b :: rat\<rfloor> = numeral a div numeral b"
  by (metis floor_divide_of_int_eq of_int_numeral)

lemma floor_rat_neg_numeral_div [simp]:
  "\<lfloor>- (numeral a / numeral b) :: rat\<rfloor> = - numeral a div numeral b"
  using floor_divide_of_int_eq [of "- numeral a" "numeral b", where ?'a = rat] by simp

lemma ceiling_rat_numeral_div [simp]:
  "\<lceil>numeral a / numeral b :: rat\<rceil> = - (- numeral a div numeral b)"
  unfolding ceiling_def
  using floor_divide_of_int_eq [of "- numeral a" "numeral b", where ?'a = rat] by simp

lemmas fl_eval =
  fl_def binary_exponent_def pow2_def round_half_even_def compute_floorlog Let_def

lemmas parseFloat_eval =
  parseFloat_string_def unsigned_literal_def exponent_part_def decimal_value_def
  is_digit_def is_whitespace_def digit_value_def pow10_def

lemmas io_defs =
  returns_def eval_def await_def io_bind_def try_catch_def no_catch_def
  provider_getBalance_def provider_getFeeData_def provider_getTransactionCount_def
  wallet_signTransaction_def provider_broadcastTransaction_def txResponse_wait_def

text \<open>The binary64 values of the literals 0.01 and 0.002, and of their sum.\<close>

lemma lit_0_01_value: "lit_0_01 = Fin (5764607523034235 / 576460752303423488)"
  by (simp add: lit_0_01_def fl_eval)

lemma lit_0_002_value: "lit_0_002 = Fin (1152921504606847 / 576460752303423488)"
  by (simp add: lit_0_002_def fl_eval)

lemma lit_sum_value:
  "num_add lit_0_01 lit_0_002 = Fin (3458764513820541 / 288230376151711744)"
  by (simp add: lit_0_01_value lit_0_002_value fl_eval)

lemma lit_0_01_truthy [simp]: "num_truthy lit_0_01"
  by (simp add: lit_0_01_value)

text \<open>The example node, evaluated where the examples need it.\<close>

lemma example_env_simps [simp]:
  "wallet_address (example_env bal bc) = example_wallet"
  "isAddress (example_env bal bc) = is_lower_hex_address"
  "formatEther (example_env bal bc) v = format_units v 18"
  "formatUnits (example_env bal bc) (Some g) u = Inr (format_units g 9)"
  "parseEther (example_env bal bc) = parse_ether"
  "numberToString (example_env bal bc) = number_toString"
  "getBalance (example_env bal bc) a = bal"
  "getFeeData (example_env bal bc) = Inr \<lparr>gasPrice = Some 20000000000\<rparr>"
  "getTransactionCount (example_env bal bc) a tag = Inr 7"
  "signTransaction (example_env bal bc) t = Inr ''0xf86c''"
  "broadcastTransaction (example_env bal bc) signed = bc"
  by (simp_all add: example_env_def)

lemma example_txResponse_simps [simp]:
  "tr_hash example_txResponse = ''0xabc''"
  "tr_wait example_txResponse confirms = Inr example_receipt"
  by (simp_all add: example_txResponse_def)

lemma example_receipt_simps [simp]:
  "rc_blockNumber example_receipt = 19000000"
  "rc_gasUsed example_receipt = 21000"
  "rc_gasPrice example_receipt = 20000000000"
  by (simp_all add: example_receipt_def)

lemmas format_eval =
  format_units_def strip_trailing_zeros_def decimal_string.simps digit_char_def Let_def

lemmas parse_ether_eval =
  parse_ether_def is_digit_def decimal_value_def digit_value_def Let_def

lemma example_addresses [simp]:
  "is_lower_hex_address (Str example_destination)"
  "is_lower_hex_address (Str example_wallet)"
  "toLowerCase example_destination = example_destination"
  "toLowerCase example_wallet = example_wallet"
  "example_destination \<noteq> example_wallet"
  "example_wallet \<noteq> []"
  "example_destination \<noteq> []"
  by (simp_all add: example_destination_def example_wallet_def is_lower_hex_address.simps
      is_lower_hex_def is_digit_def toLowerCase_def lower_char_def)

lemma example_formats [simp]:
  "format_units 1000000000000000000 18 = ''1.0''"
  "format_units 999999999999999999 18 = ''0.999999999999999999''"
  "format_units 500000000000000000 18 = ''0.5''"
  "format_units 20000000000 9 = ''20.0''"
  "decimal_string 21000 = ''21000''"
  "decimal_string 20000000000 = ''20000000000''"
  by (simp_all add: format_eval)

lemma example_parses [simp]:
  "parse_ether ''1'' = Inr 1000000000000000000"
  "parse_ether ''0.5'' = Inr 500000000000000000"
  "parse_ether ''0.01'' = Inr 10000000000000000"
  by (simp_all add: parse_ether_eval)

lemma example_reads [simp]:
  "parseFloat_string ''1.0'' = Fin 1"
  "parseFloat_string ''1'' = Fin 1"
  "parseFloat_string ''0.5'' = Fin (1 / 2)"
  "parseFloat_string ''0.999999999999999999'' = Fin 1"
  "parseFloat_string ''abc'' = NaN"
  "parseFloat_string ''0.01'' = lit_0_01"
  by (simp_all add: lit_0_01_value parseFloat_eval fl_eval)

text \<open>The literal 0.01 is printed as \<^verbatim>\<open>0.01\<close>: no single digit reads back as it.\<close>

lemmas number_toString_eval =
  shortest_digits.simps digit_candidates_def reads_back_def closer_def decimal_exponent_def
  decimal_string.simps digit_char_def pow10_def

lemma number_toString_0_01 [simp]:
  "number_toString lit_0_01 = ''0.01''"
  by (simp add: lit_0_01_value number_toString_eval fl_eval)

lemma example_balance_check [simp]:
  "\<not> num_lt (Fin 1) (num_add lit_0_01 lit_0_002)"
  by (simp add: lit_sum_value)

section \<open>Rejections of \<^verbatim>\<open>POST /withdraw\<close>\<close>

text \<open>
  C4, as claimed: every request to \<^verbatim>\<open>/withdraw\<close> whose destination is not a valid
  address is answered with \<^verbatim>\<open>{error: "Invalid address"}\<close>. The handler first checks that
  destination and amount are present, so an invalid destination sent without an amount or
  with the amount 0, and the empty destination, are answered with
  \<^verbatim>\<open>{error: "Missing parameters"}\<close> instead.
\<close>

theorem withdraw_invalid_address_missing_parameters:
  "isAddress (example_env (Inr 1000000000000000000) (Inr example_txResponse))
       (Str ''0x12345'') = False \<and>
   withdraw (example_env (Inr 1000000000000000000) (Inr example_txResponse))
       (body_of [(''toAddress'', Str ''0x12345'')]) =
     ([], Response 400 [(''error'', jstr ''Missing parameters'')]) \<and>
   withdraw (example_env (Inr 1000000000000000000) (Inr example_txResponse))
       (body_of [(''toAddress'', Str ''0x12345''), (''amountETH'', Num (Fin 0))]) =
     ([], Response 400 [(''error'', jstr ''Missing parameters'')]) \<and>
   isAddress (example_env (Inr 1000000000000000000) (Inr example_txResponse))
       (Str []) = False \<and>
   withdraw (example_env (Inr 1000000000000000000) (Inr example_txResponse))
       (body_of [(''toAddress'', Str []), (''amountETH'', Str ''1'')]) =
     ([], Response 400 [(''error'', jstr ''Missing parameters'')])"
  by (simp add: withdraw_def Let_def io_defs body_of_def is_lower_hex_address.simps)

text \<open>
  C4, amended. A request to \<^verbatim>\<open>/withdraw\<close> whose destination is not a valid address is
  answered with status 400 and no call to the signer or the provider is made. When
  destination and amount are both present the body is \<^verbatim>\<open>{error: "Invalid address"}\<close>;
  when the destination is missing or empty, or the amount is missing, empty or zero, the
  body is \<^verbatim>\<open>{error: "Missing parameters"}\<close>.
\<close>

theorem withdraw_invalid_address:
  assumes "\<not> isAddress env (b ''toAddress'')"
  shows "withdraw env b =
           ([], Response 400
                  [(''error'', jstr (if truthy (b ''toAddress'') \<and> truthy (b ''amountETH'')
                                     then ''Invalid address'' else ''Missing parameters''))])"
  using assms by (simp add: withdraw_def Let_def io_defs)

theorem withdraw_invalid_address_witness:
  "\<not> isAddress (example_env (Inr 1000000000000000000) (Inr example_txResponse))
       (body_of [(''toAddress'', Str ''0x12345''), (''amountETH'', Str ''1'')] ''toAddress'') \<and>
   withdraw (example_env (Inr 1000000000000000000) (Inr example_txResponse))
       (body_of [(''toAddress'', Str ''0x12345''), (''amountETH'', Str ''1'')]) =
     ([], Response 400 [(''error'', jstr ''Invalid address'')])"
proof -
  let ?env = "example_env (Inr 1000000000000000000) (Inr example_txResponse)"
  let ?b = "body_of [(''toAddress'', Str ''0x12345''), (''amountETH'', Str ''1'')]"
  have h: "\<not> isAddress ?env (?b ''toAddress'')"
    by (simp add: body_of_def is_lower_hex_address.simps)
  show ?thesis
    using h withdraw_invalid_address [of ?env ?b] by (simp add: body_of_def)
qed

text \<open>
  C3, as claimed: every request to \<^verbatim>\<open>/withdraw\<close> whose destination is the wallet's own
  address is answered with \<^verbatim>\<open>{error: "Cannot send to backend wallet"}\<close>. The handler first
  checks that destination and amount are present, so a request to the wallet's own address
  with the amount 0, or with no amount, is answered with
  \<^verbatim>\<open>{error: "Missing parameters"}\<close> instead.
\<close>

theorem withdraw_self_transfer_without_amount:
  "wallet_address (example_env (Inr 1000000000000000000) (Inr example_txResponse)) =
     example_wallet \<and>
   withdraw (example_env (Inr 1000000000000000000) (Inr example_txResponse))
       (body_of [(''toAddress'', Str example_wallet), (''amountETH'', Num (Fin 0))]) =
     ([], Response 400 [(''error'', jstr ''Missing parameters'')]) \<and>
   withdraw (example_env (Inr 1000000000000000000) (Inr example_txResponse))
       (body_of [(''toAddress'', Str example_wallet)]) =
     ([], Response 400 [(''error'', jstr ''Missing parameters'')])"
  by (simp add: withdraw_def Let_def io_defs body_of_def)

text \<open>
  C3, amended. A request to \<^verbatim>\<open>/withdraw\<close> whose destination is a valid address equal to
  the wallet's own address (compared in lower case, as the handler does) is answered with
  status 400, and no call has been made, so the balance has not been queried. When the
  destination is not empty and the amount is present (not missing, empty or zero) the body
  is \<^verbatim>\<open>{error: "Cannot send to backend wallet"}\<close>; otherwise it is
  \<^verbatim>\<open>{error: "Missing parameters"}\<close>.
\<close>

theorem withdraw_self_transfer:
  assumes "b ''toAddress'' = Str d"
    and "isAddress env (Str d)"
    and "toLowerCase d = toLowerCase (wallet_address env)"
  shows "withdraw env b =
           ([], Response 400
                  [(''error'', jstr (if d \<noteq> [] \<and> truthy (b ''amountETH'')
                                     then ''Cannot send to backend wallet''
                                     else ''Missing parameters''))])"
  using assms by (simp add: withdraw_def Let_def io_defs)

theorem withdraw_self_transfer_witness:
  "withdraw (example_env (Inr 1000000000000000000) (Inr example_txResponse))
       (body_of [(''toAddress'', Str example_wallet), (''amountETH'', Num (Fin 1))]) =
     ([], Response 400 [(''error'', jstr ''Cannot send to backend wallet'')])"
proof -
  let ?env = "example_env (Inr 1000000000000000000) (Inr example_txResponse)"
  let ?b = "body_of [(''toAddress'', Str example_wallet), (''amountETH'', Num (Fin 1))]"
  have 1: "?b ''toAddress'' = Str example_wallet"
    by (simp add: body_of_def)
  have 2: "isAddress ?env (Str example_wallet)"
    by simp
  have 3: "toLowerCase example_wallet = toLowerCase (wallet_address ?env)"
    by simp
  show ?thesis
    using withdraw_self_transfer [where b = ?b and env = ?env and d = example_wallet, OF 1 2 3]
    by (simp add: body_of_def)
qed

section \<open>The submission of \<^verbatim>\<open>POST /withdraw\<close>\<close>

lemma withdraw_proceeds:
  assumes "truthy (b ''toAddress'')" and "truthy (b ''amountETH'')"
    and "isAddress env (b ''toAddress'')"
    and "method_toLowerCase ''toAddress'' (b ''toAddress'') = Inr l"
    and "l \<noteq> toLowerCase (wallet_address env)"
    and "getBalance env (wallet_address env) = Inr bal"
    and "\<not> num_lt (parseFloat (Str (formatEther env bal))) (parseFloat (b ''amountETH''))"
    and "getFeeData env = Inr fd"
    and "getTransactionCount env (wallet_address env) (Some ''pending'') = Inr n"
    and "method_toString env (b ''amountETH'') = Inr s"
    and "parseEther env s = Inr wei"
    and "formatUnits env (gasPrice fd) ''gwei'' = Inr g"
    and "signTransaction env
           \<lparr>tx_to = b ''toAddress'', tx_value = wei, tx_nonce = n, tx_gasLimit = 21000,
            tx_gasPrice = gasPrice fd, tx_chainId = 1\<rparr> = Inr signed"
    and "broadcastTransaction env signed = Inr txr"
    and "tr_wait txr 1 = Inr rc"
  shows "withdraw env b =
           ([GetBalance (wallet_address env), GetFeeData,
             GetTransactionCount (wallet_address env) (Some ''pending''),
             SignTransaction
               \<lparr>tx_to = b ''toAddress'', tx_value = wei, tx_nonce = n, tx_gasLimit = 21000,
                tx_gasPrice = gasPrice fd, tx_chainId = 1\<rparr>,
             BroadcastTransaction signed, Wait (tr_hash txr) 1],
            withdraw_success env b txr rc)"
  using assms by (simp add: withdraw_def withdraw_success_def Let_def io_defs)

lemma withdraw_success_only_after_wait:
  assumes "snd (withdraw env b) = Response 200 body"
  shows "\<exists>fd n wei signed txr rc.
           getFeeData env = Inr fd \<and>
           getTransactionCount env (wallet_address env) (Some ''pending'') = Inr n \<and>
           signTransaction env
             \<lparr>tx_to = b ''toAddress'', tx_value = wei, tx_nonce = n, tx_gasLimit = 21000,
              tx_gasPrice = gasPrice fd, tx_chainId = 1\<rparr> = Inr signed \<and>
           broadcastTransaction env signed = Inr txr \<and>
           tr_wait txr 1 = Inr rc \<and>
           fst (withdraw env b) =
             [GetBalance (wallet_address env), GetFeeData,
              GetTransactionCount (wallet_address env) (Some ''pending''),
              SignTransaction
                \<lparr>tx_to = b ''toAddress'', tx_value = wei, tx_nonce = n, tx_gasLimit = 21000,
                 tx_gasPrice = gasPrice fd, tx_chainId = 1\<rparr>,
              BroadcastTransaction signed, Wait (tr_hash txr) 1]"
  using assms
  by (auto simp add: withdraw_def Let_def io_defs split: if_splits sum.splits prod.splits)

text \<open>
  C7. When a request to \<^verbatim>\<open>/withdraw\<close> passes the four checks and every collaborator
  answers, the handler fetches the fee data and the pending nonce, builds the intent from
  them with gas limit 21000 and chain id 1, signs it, broadcasts the signed payload,
  waits for one confirmation, and answers with the success body; these are its calls, in
  this order. Conversely a success response is only ever given after exactly this
  sequence of calls, the wait for one confirmation last.
\<close>

theorem withdraw_submission:
  "(truthy (b ''toAddress'') \<and> truthy (b ''amountETH'') \<and> isAddress env (b ''toAddress'') \<and>
    method_toLowerCase ''toAddress'' (b ''toAddress'') = Inr l \<and>
    l \<noteq> toLowerCase (wallet_address env) \<and>
    getBalance env (wallet_address env) = Inr bal \<and>
    \<not> num_lt (parseFloat (Str (formatEther env bal))) (parseFloat (b ''amountETH'')) \<and>
    getFeeData env = Inr fd \<and>
    getTransactionCount env (wallet_address env) (Some ''pending'') = Inr n \<and>
    method_toString env (b ''amountETH'') = Inr s \<and>
    parseEther env s = Inr wei \<and>
    formatUnits env (gasPrice fd) ''gwei'' = Inr g \<and>
    signTransaction env
      \<lparr>tx_to = b ''toAddress'', tx_value = wei, tx_nonce = n, tx_gasLimit = 21000,
       tx_gasPrice = gasPrice fd, tx_chainId = 1\<rparr> = Inr signed \<and>
    broadcastTransaction env signed = Inr txr \<and>
    tr_wait txr 1 = Inr rc
    \<longrightarrow>
    withdraw env b =
      ([GetBalance (wallet_address env), GetFeeData,
        GetTransactionCount (wallet_address env) (Some ''pending''),
        SignTransaction
          \<lparr>tx_to = b ''toAddress'', tx_value = wei, tx_nonce = n, tx_gasLimit = 21000,
           tx_gasPrice = gasPrice fd, tx_chainId = 1\<rparr>,
        BroadcastTransaction signed, Wait (tr_hash txr) 1],
       withdraw_success env b txr rc)) \<and>
   (snd (withdraw env b) = Response 200 body
    \<longrightarrow>
    (\<exists>fd' n' wei' signed' txr' rc'.
       getFeeData env = Inr fd' \<and>
       getTransactionCount env (wallet_address env) (Some ''pending'') = Inr n' \<and>
       signTransaction env
         \<lparr>tx_to = b ''toAddress'', tx_value = wei', tx_nonce = n', tx_gasLimit = 21000,
          tx_gasPrice = gasPrice fd', tx_chainId = 1\<rparr> = Inr signed' \<and>
       broadcastTransaction env signed' = Inr txr' \<and>
       tr_wait txr' 1 = Inr rc' \<and>
       fst (withdraw env b) =
         [GetBalance (wallet_address env), GetFeeData,
          GetTransactionCount (wallet_address env) (Some ''pending''),
          SignTransaction
            \<lparr>tx_to = b ''toAddress'', tx_value = wei', tx_nonce = n', tx_gasLimit = 21000,
             tx_gasPrice = gasPrice fd', tx_chainId = 1\<rparr>,
          BroadcastTransaction signed', Wait (tr_hash txr') 1]))"
proof (intro conjI impI)
  assume "snd (withdraw env b) = Response 200 body"
  then show "\<exists>fd' n' wei' signed' txr' rc'.
       getFeeData env = Inr fd' \<and>
       getTransactionCount env (wallet_address env) (Some ''pending'') = Inr n' \<and>
       signTransaction env
         \<lparr>tx_to = b ''toAddress'', tx_value = wei', tx_nonce = n', tx_gasLimit = 21000,
          tx_gasPrice = gasPrice fd', tx_chainId = 1\<rparr> = Inr signed' \<and>
       broadcastTransaction env signed' = Inr txr' \<and>
       tr_wait txr' 1 = Inr rc' \<and>
       fst (withdraw env b) =
         [GetBalance (wallet_address env), GetFeeData,
          GetTransactionCount (wallet_address env) (Some ''pending''),
          SignTransaction
            \<lparr>tx_to = b ''toAddress'', tx_value = wei', tx_nonce = n', tx_gasLimit = 21000,
             tx_gasPrice = gasPrice fd', tx_chainId = 1\<rparr>,
          BroadcastTransaction signed', Wait (tr_hash txr') 1]"
    by (rule withdraw_success_only_after_wait)
qed (elim conjE, rule withdraw_proceeds)

theorem withdraw_submission_witness:
  "withdraw (example_env (Inr 1000000000000000000) (Inr example_txResponse))
     (body_of [(''toAddress'', Str example_destination), (''amountETH'', Str ''0.5'')]) =
   ([GetBalance example_wallet, GetFeeData,
     GetTransactionCount example_wallet (Some ''pending''),
     SignTransaction
       \<lparr>tx_to = Str example_destination, tx_value = 500000000000000000, tx_nonce = 7,
        tx_gasLimit = 21000, tx_gasPrice = Some 20000000000, tx_chainId = 1\<rparr>,
     BroadcastTransaction ''0xf86c'', Wait ''0xabc'' 1],
    Response 200
      [(''success'', jbool True),
       (''txHash'', jstr ''0xabc''),
       (''from'', jstr example_wallet),
       (''to'', JVal (Str example_destination)),
       (''amount'', JVal (Str ''0.5'')),
       (''blockNumber'', jnat 19000000),
       (''gasUsed'', jstr ''21000''),
       (''effectiveGasPrice'', jstr ''20000000000'')])"
proof -
  let ?env = "example_env (Inr 1000000000000000000) (Inr example_txResponse)"
  let ?b = "body_of [(''toAddress'', Str example_destination), (''amountETH'', Str ''0.5'')]"
  let ?fd = "\<lparr>gasPrice = Some 20000000000\<rparr>"
  let ?t = "\<lparr>tx_to = ?b ''toAddress'', tx_value = 500000000000000000, tx_nonce = 7,
             tx_gasLimit = 21000, tx_gasPrice = gasPrice ?fd, tx_chainId = 1\<rparr>"
  have hyps:
    "truthy (?b ''toAddress'') \<and> truthy (?b ''amountETH'') \<and>
     isAddress ?env (?b ''toAddress'') \<and>
     method_toLowerCase ''toAddress'' (?b ''toAddress'') = Inr example_destination \<and>
     example_destination \<noteq> toLowerCase (wallet_address ?env) \<and>
     getBalance ?env (wallet_address ?env) = Inr 1000000000000000000 \<and>
     \<not> num_lt (parseFloat (Str (formatEther ?env 1000000000000000000)))
           (parseFloat (?b ''amountETH'')) \<and>
     getFeeData ?env = Inr ?fd \<and>
     getTransactionCount ?env (wallet_address ?env) (Some ''pending'') = Inr 7 \<and>
     method_toString ?env (?b ''amountETH'') = Inr ''0.5'' \<and>
     parseEther ?env ''0.5'' = Inr 500000000000000000 \<and>
     formatUnits ?env (gasPrice ?fd) ''gwei'' = Inr ''20.0'' \<and>
     signTransaction ?env ?t = Inr ''0xf86c'' \<and>
     broadcastTransaction ?env ''0xf86c'' = Inr example_txResponse \<and>
     tr_wait example_txResponse 1 = Inr example_receipt"
    by (simp add: body_of_def)
  have "withdraw ?env ?b =
          ([GetBalance (wallet_address ?env), GetFeeData,
            GetTransactionCount (wallet_address ?env) (Some ''pending''),
            SignTransaction ?t, BroadcastTransaction ''0xf86c'',
            Wait (tr_hash example_txResponse) 1],
           withdraw_success ?env ?b example_txResponse example_receipt)"
    using withdraw_submission
      [where env = ?env and b = ?b and l = example_destination
         and bal = 1000000000000000000 and fd = ?fd and n = 7
         and s = "''0.5''" and wei = 500000000000000000 and g = "''20.0''"
         and signed = "''0xf86c''" and txr = example_txResponse and rc = example_receipt,
       THEN conjunct1, THEN mp, OF hyps] .
  then show ?thesis
    by (simp add: withdraw_success_def body_of_def)
qed

section \<open>The balance check of \<^verbatim>\<open>POST /withdraw\<close>\<close>

text \<open>
  The handler compares balance and amount as numbers: the balance formatted in ether
  and read back by \<^verbatim>\<open>parseFloat\<close>, the amount read by \<^verbatim>\<open>parseFloat\<close>. When a
  request passes the checks of presence, validity and self-transfer and the first number
  is below the second, the answer is status 400 with
  \<^verbatim>\<open>{error: "Insufficient backend balance", balance}\<close>, after the balance query and no
  other call.
\<close>

theorem withdraw_insufficient_as_compared:
  assumes "truthy (b ''toAddress'')" and "truthy (b ''amountETH'')"
    and "isAddress env (b ''toAddress'')"
    and "method_toLowerCase ''toAddress'' (b ''toAddress'') = Inr l"
    and "l \<noteq> toLowerCase (wallet_address env)"
    and "getBalance env (wallet_address env) = Inr bal"
    and "num_lt (parseFloat (Str (formatEther env bal))) (parseFloat (b ''amountETH''))"
  shows "withdraw env b =
           ([GetBalance (wallet_address env)],
            Response 400
              [(''error'', jstr ''Insufficient backend balance''),
               (''balance'', jstr (formatEther env bal))])"
  using assms by (simp add: withdraw_def Let_def io_defs)

text \<open>The scenario of the specification: balance 0.5, amount \<^verbatim>\<open>"1.0"\<close>.\<close>

theorem withdraw_insufficient_scenario:
  "withdraw (example_env (Inr 500000000000000000) (Inr example_txResponse))
     (body_of [(''toAddress'', Str example_destination), (''amountETH'', Str ''1.0'')]) =
   ([GetBalance example_wallet],
    Response 400
      [(''error'', jstr ''Insufficient backend balance''), (''balance'', jstr ''0.5'')])"
proof -
  let ?env = "example_env (Inr 500000000000000000) (Inr example_txResponse)"
  let ?b = "body_of [(''toAddress'', Str example_destination), (''amountETH'', Str ''1.0'')]"
  have 1: "truthy (?b ''toAddress'')" and 2: "truthy (?b ''amountETH'')"
    and 3: "isAddress ?env (?b ''toAddress'')"
    and 4: "method_toLowerCase ''toAddress'' (?b ''toAddress'') = Inr example_destination"
    by (simp_all add: body_of_def)
  have 5: "example_destination \<noteq> toLowerCase (wallet_address ?env)"
    by simp
  have 6: "getBalance ?env (wallet_address ?env) = Inr 500000000000000000"
    by simp
  have 7: "num_lt (parseFloat (Str (formatEther ?env 500000000000000000)))
             (parseFloat (?b ''amountETH''))"
    by (simp add: body_of_def)
  show ?thesis
    using withdraw_insufficient_as_compared [OF 1 2 3 4 5 6 7] by simp
qed

text \<open>
  C2. The claim: whenever the balance is strictly less than the requested amount,
  \<^verbatim>\<open>/withdraw\<close> answers 400 \<^verbatim>\<open>Insufficient backend balance\<close> and signs and broadcasts
  nothing. The comparison is made on binary64 numbers, so it fails for a balance just
  below the amount: with 999999999999999999 wei in the wallet and the amount
  \<^verbatim>\<open>"1"\<close>, the formatted balance \<^verbatim>\<open>"0.999999999999999999"\<close> reads back as 1, the
  check \<open>1 < 1\<close> lets the request through, and a transaction of \<open>10 ^ 18\<close> wei is signed
  and handed to the node (which refuses it here).
\<close>

theorem withdraw_balance_check_rounds:
  "withdraw (example_env (Inr 999999999999999999) (Inl insufficient_funds))
     (body_of [(''toAddress'', Str example_destination), (''amountETH'', Str ''1'')]) =
   ([GetBalance example_wallet, GetFeeData,
     GetTransactionCount example_wallet (Some ''pending''),
     SignTransaction
       \<lparr>tx_to = Str example_destination, tx_value = 1000000000000000000, tx_nonce = 7,
        tx_gasLimit = 21000, tx_gasPrice = Some 20000000000, tx_chainId = 1\<rparr>,
     BroadcastTransaction ''0xf86c''],
    Response 500
      [(''error'', jstr ''insufficient funds for intrinsic transaction cost''),
       (''code'', JVal (Str ''INSUFFICIENT_FUNDS''))])"
  by (simp add: withdraw_def Let_def io_defs body_of_def insufficient_funds_def)

theorem withdraw_balance_check_rounds_witness:
  "(999999999999999999 :: nat) < 1000000000000000000 \<and>
   SignTransaction
     \<lparr>tx_to = Str example_destination, tx_value = 1000000000000000000, tx_nonce = 7,
      tx_gasLimit = 21000, tx_gasPrice = Some 20000000000, tx_chainId = 1\<rparr>
   \<in> set (fst (withdraw (example_env (Inr 999999999999999999) (Inl insufficient_funds))
        (body_of [(''toAddress'', Str example_destination), (''amountETH'', Str ''1'')]))) \<and>
   BroadcastTransaction ''0xf86c''
   \<in> set (fst (withdraw (example_env (Inr 999999999999999999) (Inl insufficient_funds))
        (body_of [(''toAddress'', Str example_destination), (''amountETH'', Str ''1'')])))"
  using withdraw_balance_check_rounds by simp

section \<open>Errors at the request boundary\<close>

text \<open>
  Every handler but the one of \<^verbatim>\<open>GET /earnings\<close> answers whatever happens: its
  body is inside \<^verbatim>\<open>try\<close> and the \<^verbatim>\<open>catch\<close> block answers with status 500.
\<close>

theorem other_routes_answer:
  assumes "r \<noteq> GetEarnings"
  shows "answered (snd (snd (handle env c r)))"
proof (cases r)
  case (PostWithdraw b)
  then show ?thesis
    by (auto simp add: withdraw_def Let_def io_defs split: sum.splits prod.splits)
next
  case (PostSignMessage b)
  then show ?thesis
    by (auto simp add: sign_message_def Let_def io_defs split: sum.splits prod.splits)
next
  case (GetTransactionByHash h)
  then show ?thesis
    by (auto simp add: transaction_def receipt_json_def Let_def io_defs
        split: sum.splits prod.splits option.splits)
next
  case GetBalanceOfWallet
  then show ?thesis
    by (auto simp add: balance_def Let_def io_defs split: sum.splits prod.splits)
next
  case (PostEstimateGas b)
  then show ?thesis
    by (auto simp add: estimate_gas_def Let_def io_defs split: sum.splits prod.splits)
next
  case (PostCreditEarnings b)
  then show ?thesis
    by (auto simp add: credit_earnings_def Let_def io_defs split: sum.splits prod.splits)
next
  case (PostConvertEarningsToEth b)
  then show ?thesis
    by (auto simp add: convert_earnings_to_eth_def Let_def io_defs
        split: sum.splits prod.splits)
next
  case (PostFundFromEarnings b)
  then show ?thesis
    by (auto simp add: fund_from_earnings_def Let_def io_defs split: sum.splits prod.splits)
next
  case (PostWithdrawProfitsToTreasury b)
  then show ?thesis
    by (auto simp add: withdraw_profits_to_treasury_def Let_def io_defs
        split: sum.splits prod.splits)
next
  case (PostClaimMevProfits b)
  then show ?thesis
    by (auto simp add: claim_mev_profits_def Let_def io_defs split: sum.splits prod.splits)
next
  case GetEarnings
  then show ?thesis
    using assms by simp
next
  case GetStatus
  then show ?thesis
    by (simp add: status_def)
next
  case GetHealth
  then show ?thesis
    by (simp add: health_def)
qed

theorem other_routes_answer_witness:
  "handle (example_env (Inl node_unreachable) (Inl node_unreachable)) initial_earningsBalance
     GetBalanceOfWallet =
   (initial_earningsBalance, [GetBalance example_wallet],
    Response 500 [(''error'', jstr ''could not detect network'')])"
proof -
  let ?env = "example_env (Inl node_unreachable) (Inl node_unreachable)"
  have "GetBalanceOfWallet \<noteq> GetEarnings"
    by simp
  then have "answered (snd (snd (handle ?env initial_earningsBalance GetBalanceOfWallet)))"
    by (rule other_routes_answer)
  then show ?thesis
    by (simp add: balance_def io_defs node_unreachable_def)
qed

text \<open>
  C6. The claim: every error raised while a request is handled is caught and answered
  with a JSON error body. The handler of \<^verbatim>\<open>GET /earnings\<close> has no \<^verbatim>\<open>try\<close>: when the
  balance query fails, the error leaves the handler, which sends no answer.
\<close>

theorem earnings_error_escapes:
  "earnings (example_env (Inl node_unreachable) (Inl node_unreachable))
     initial_earningsBalance =
   ([GetBalance example_wallet], Unhandled node_unreachable)"
  by (simp add: earnings_def io_defs)

section \<open>The earnings counter\<close>

text \<open>Rounding keeps the sign, so adding numbers \<open>\<ge> 0\<close> gives a number \<open>\<ge> 0\<close>.\<close>

lemma round_half_even_nonneg: "0 \<le> q \<Longrightarrow> 0 \<le> round_half_even q"
  by (auto simp add: round_half_even_def Let_def)

lemma pow2_pos: "0 < pow2 k"
  by (simp add: pow2_def)

lemma fl_non_negative:
  assumes "0 \<le> q"
  shows "non_negative (fl q)"
proof (cases "q = 0")
  case True
  then show ?thesis by (simp add: fl_def)
next
  case False
  define e where "e = max (binary_exponent \<bar>q\<bar> - 52) (- 1074)"
  define r where "r = of_int (round_half_even (q / pow2 e)) * pow2 e"
  have "0 \<le> q / pow2 e"
    using assms pow2_pos [of e] by simp
  then have "0 \<le> round_half_even (q / pow2 e)"
    by (rule round_half_even_nonneg)
  then have r: "0 \<le> r"
    using pow2_pos [of e] by (simp add: r_def)
  have "fl q = (if 2 ^ 1024 \<le> r then PosInf else if r \<le> - (2 ^ 1024) then NegInf else Fin r)"
    using False by (simp add: fl_def Let_def e_def r_def)
  moreover have "(0::rat) < 2 ^ 1024"
    by (rule zero_less_power) simp
  then have "\<not> r \<le> - (2 ^ 1024)"
    using r by linarith
  ultimately show ?thesis
    using r by auto
qed

lemma num_add_non_negative:
  "non_negative a \<Longrightarrow> non_negative c \<Longrightarrow> non_negative (num_add a c)"
  by (cases a; cases c) (simp_all add: fl_non_negative)

lemma num_or_zero: "num_or p (Fin 0) = (if p = NaN then Fin 0 else p)"
  by (cases p) (simp_all add: num_or_def)

lemma credited_non_negative:
  "parseFloat v = NaN \<or> non_negative (parseFloat v) \<Longrightarrow>
   non_negative (num_or (parseFloat v) (Fin 0))"
  by (auto simp add: num_or_zero)

lemma handle_non_negative:
  "non_negative c \<Longrightarrow> credits_non_negative r \<Longrightarrow> non_negative (fst (handle env c r))"
  by (cases r)
    (simp_all add: credit_earnings_def Let_def num_add_non_negative credited_non_negative)

lemma handle_other_routes: "\<not> is_credit r \<Longrightarrow> fst (handle env c r) = c"
  by (cases r) simp_all

lemma serve_non_negative:
  "non_negative c \<Longrightarrow> list_all (\<lambda>er. credits_non_negative (snd er)) rs \<Longrightarrow>
   non_negative (serve c rs)"
proof (induction rs arbitrary: c)
  case Nil
  then show ?case by simp
next
  case (Cons er rs)
  obtain env r where er: "er = (env, r)" by (cases er)
  have "non_negative (fst (handle env c r))"
    using Cons.prems er by (simp add: handle_non_negative)
  then show ?case
    using Cons er by simp
qed

text \<open>
  C5, as claimed: the counter is non-negative after every operation. It is not: the
  handler adds whatever \<^verbatim>\<open>parseFloat\<close> reads, and crediting \<^verbatim>\<open>-5\<close> to the
  initial counter leaves \<^verbatim>\<open>-5\<close>.
\<close>

theorem earnings_counter_negative_credit:
  "\<not> non_negative
       (serve initial_earningsBalance
          [(example_env (Inr 1000000000000000000) (Inr example_txResponse),
            PostCreditEarnings
              (body_of [(''amountUSD'', Num (Fin (- 5))), (''source'', Str ''refund'')]))])"
  by (simp add: initial_earningsBalance_def credit_earnings_def body_of_def num_or_def fl_eval)

text \<open>
  C5, amended. Starting from 0, the counter is a number \<open>\<ge> 0\<close> after any sequence of
  requests in which every credited \<^verbatim>\<open>amountUSD\<close> is unparsable or parses to a number
  \<open>\<ge> 0\<close>; no route other than \<^verbatim>\<open>/credit-earnings\<close> changes the counter; and that
  route changes it by one addition.
\<close>

theorem earnings_counter_invariant:
  "(list_all (\<lambda>er. credits_non_negative (snd er)) rs \<longrightarrow>
      non_negative (serve initial_earningsBalance rs)) \<and>
   (\<not> is_credit r \<longrightarrow> fst (handle env c r) = c) \<and>
   fst (handle env c (PostCreditEarnings b)) =
     num_add c (num_or (parseFloat (b ''amountUSD'')) (Fin 0))"
proof (intro conjI impI)
  assume "list_all (\<lambda>er. credits_non_negative (snd er)) rs"
  then show "non_negative (serve initial_earningsBalance rs)"
    by (intro serve_non_negative) (simp_all add: initial_earningsBalance_def)
next
  assume "\<not> is_credit r"
  then show "fst (handle env c r) = c"
    by (rule handle_other_routes)
next
  show "fst (handle env c (PostCreditEarnings b)) =
          num_add c (num_or (parseFloat (b ''amountUSD'')) (Fin 0))"
    by (simp add: credit_earnings_def Let_def)
qed

theorem earnings_counter_invariant_witness:
  "non_negative
     (serve initial_earningsBalance
        [(example_env (Inr 1000000000000000000) (Inr example_txResponse),
          PostCreditEarnings (body_of [(''amountUSD'', Num (Fin 50)), (''source'', Str ''x'')])),
         (example_env (Inr 1000000000000000000) (Inr example_txResponse), GetEarnings),
         (example_env (Inr 1000000000000000000) (Inr example_txResponse),
          PostCreditEarnings (body_of [(''amountUSD'', Str ''abc''), (''source'', Str ''y'')]))]) \<and>
   fst (handle (example_env (Inr 1000000000000000000) (Inr example_txResponse)) (Fin 75)
          GetEarnings) = Fin 75"
proof -
  let ?env = "example_env (Inr 1000000000000000000) (Inr example_txResponse)"
  let ?rs =
    "[(?env, PostCreditEarnings (body_of [(''amountUSD'', Num (Fin 50)), (''source'', Str ''x'')])),
      (?env, GetEarnings),
      (?env, PostCreditEarnings (body_of [(''amountUSD'', Str ''abc''), (''source'', Str ''y'')]))]"
  have h: "list_all (\<lambda>er. credits_non_negative (snd er)) ?rs"
    by (simp add: body_of_def)
  have g: "\<not> is_credit GetEarnings"
    by simp
  show ?thesis
    using earnings_counter_invariant [of ?rs GetEarnings ?env "Fin 75"] h g by blast
qed



section \<open>Defaults of the treasury routes\<close>

text \<open>
  C9. A request to \<^verbatim>\<open>/fund-from-earnings\<close> that names no destination (none of
  \<^verbatim>\<open>treasury\<close>, \<^verbatim>\<open>to\<close>, \<^verbatim>\<open>toAddress\<close> is present) is sent to the wallet's own
  address: when the balance check passes and the collaborators answer, the intent with
  the wallet as destination is signed and broadcast, and the answer is the success body
  with \<^verbatim>\<open>to\<close> equal to \<^verbatim>\<open>from\<close>. Nothing rejects the self-transfer.
\<close>

theorem fund_from_earnings_self_transfer:
  assumes "\<not> truthy (b ''treasury'')" and "\<not> truthy (b ''to'')"
    and "\<not> truthy (b ''toAddress'')"
    and "getBalance env (wallet_address env) = Inr bal"
    and "\<not> num_lt (parseFloat (Str (formatEther env bal))) (num_add (fund_amount b) lit_0_002)"
    and "getFeeData env = Inr fd"
    and "getTransactionCount env (wallet_address env) (Some ''pending'') = Inr n"
    and "parseEther env (numberToString env (fund_amount b)) = Inr wei"
    and "signTransaction env
           \<lparr>tx_to = Str (wallet_address env), tx_value = wei, tx_nonce = n,
            tx_gasLimit = 21000, tx_gasPrice = gasPrice fd, tx_chainId = 1\<rparr> = Inr signed"
    and "broadcastTransaction env signed = Inr txr"
    and "tr_wait txr 1 = Inr rc"
  shows "fund_from_earnings env b =
           ([GetBalance (wallet_address env), GetFeeData,
             GetTransactionCount (wallet_address env) (Some ''pending''),
             SignTransaction
               \<lparr>tx_to = Str (wallet_address env), tx_value = wei, tx_nonce = n,
                tx_gasLimit = 21000, tx_gasPrice = gasPrice fd, tx_chainId = 1\<rparr>,
             BroadcastTransaction signed, Wait (tr_hash txr) 1],
            Response 200
              [(''success'', jbool True),
               (''txHash'', jstr (tr_hash txr)),
               (''from'', jstr (wallet_address env)),
               (''to'', JVal (Str (wallet_address env))),
               (''amount'', jnum (fund_amount b)),
               (''blockNumber'', jnat (rc_blockNumber rc))])"
  using assms
  by (simp add: fund_from_earnings_def fund_amount_def js_or_def Let_def io_defs)

theorem fund_from_earnings_self_transfer_witness:
  "fund_from_earnings (example_env (Inr 1000000000000000000) (Inr example_txResponse))
     (body_of []) =
   ([GetBalance example_wallet, GetFeeData,
     GetTransactionCount example_wallet (Some ''pending''),
     SignTransaction
       \<lparr>tx_to = Str example_wallet, tx_value = 10000000000000000, tx_nonce = 7,
        tx_gasLimit = 21000, tx_gasPrice = Some 20000000000, tx_chainId = 1\<rparr>,
     BroadcastTransaction ''0xf86c'', Wait ''0xabc'' 1],
    Response 200
      [(''success'', jbool True),
       (''txHash'', jstr ''0xabc''),
       (''from'', jstr example_wallet),
       (''to'', JVal (Str example_wallet)),
       (''amount'', jnum lit_0_01),
       (''blockNumber'', jnat 19000000)])"
proof -
  let ?env = "example_env (Inr 1000000000000000000) (Inr example_txResponse)"
  let ?b = "body_of []"
  let ?fd = "\<lparr>gasPrice = Some 20000000000\<rparr>"
  have amount: "fund_amount ?b = lit_0_01"
    by (simp add: fund_amount_def body_of_def num_or_def lit_3450_def)
  have 1: "\<not> truthy (?b ''treasury'')" and 2: "\<not> truthy (?b ''to'')"
    and 3: "\<not> truthy (?b ''toAddress'')"
    by (simp_all add: body_of_def)
  have 4: "getBalance ?env (wallet_address ?env) = Inr 1000000000000000000"
    by simp
  have 5: "\<not> num_lt (parseFloat (Str (formatEther ?env 1000000000000000000)))
                (num_add (fund_amount ?b) lit_0_002)"
    by (simp add: amount)
  have 6: "getFeeData ?env = Inr ?fd"
    by simp
  have 7: "getTransactionCount ?env (wallet_address ?env) (Some ''pending'') = Inr 7"
    by simp
  have 8: "parseEther ?env (numberToString ?env (fund_amount ?b)) = Inr 10000000000000000"
    by (simp add: amount)
  have 9: "signTransaction ?env
             \<lparr>tx_to = Str (wallet_address ?env), tx_value = 10000000000000000, tx_nonce = 7,
              tx_gasLimit = 21000, tx_gasPrice = gasPrice ?fd, tx_chainId = 1\<rparr> = Inr ''0xf86c''"
    by simp
  have 10: "broadcastTransaction ?env ''0xf86c'' = Inr example_txResponse"
    by simp
  have 11: "tr_wait example_txResponse 1 = Inr example_receipt"
    by simp
  show ?thesis
    using fund_from_earnings_self_transfer [OF 1 2 3 4 5 6 7 8 9 10 11]
    by (simp add: amount)
qed

lemma withdraw_profits_default_amount:
  assumes "\<not> truthy (b ''percentage'')"
    and "parseFloat (b ''amountETH'') = NaN \<or> parseFloat (b ''amountETH'') = Fin 0"
    and "getBalance env (wallet_address env) = Inr bal"
    and "\<not> num_lt (parseFloat (Str (formatEther env bal))) (num_add lit_0_01 lit_0_002)"
    and "getFeeData env = Inr fd"
    and "getTransactionCount env (wallet_address env) (Some ''pending'') = Inr n"
    and "numberToString env lit_0_01 = number_toString lit_0_01"
    and "parseEther env ''0.01'' = Inr 10000000000000000"
    and "signTransaction env
           \<lparr>tx_to = profits_destination b, tx_value = 10000000000000000, tx_nonce = n,
            tx_gasLimit = 21000, tx_gasPrice = gasPrice fd, tx_chainId = 1\<rparr> = Inr signed"
    and "broadcastTransaction env signed = Inr txr"
    and "tr_wait txr 1 = Inr rc"
  shows "withdraw_profits_to_treasury env b =
           ([GetBalance (wallet_address env), GetFeeData,
             GetTransactionCount (wallet_address env) (Some ''pending''),
             SignTransaction
               \<lparr>tx_to = profits_destination b, tx_value = 10000000000000000, tx_nonce = n,
                tx_gasLimit = 21000, tx_gasPrice = gasPrice fd, tx_chainId = 1\<rparr>,
             BroadcastTransaction signed, Wait (tr_hash txr) 1],
            Response 200
              [(''success'', jbool True),
               (''txHash'', jstr (tr_hash txr)),
               (''amount'', jnum lit_0_01),
               (''blockNumber'', jnat (rc_blockNumber rc))])"
proof -
  have "num_or (parseFloat (b ''amountETH'')) lit_0_01 = lit_0_01"
    using assms(2) by (auto simp add: num_or_def)
  moreover have "parseEther env (numberToString env lit_0_01) = Inr 10000000000000000"
    using assms by simp
  ultimately show ?thesis
    using assms
    by (simp add: withdraw_profits_to_treasury_def profits_destination_def Let_def io_defs)
qed

lemma claim_mev_profits_default_amount:
  assumes "parseFloat (b ''amountETH'') = NaN \<or> parseFloat (b ''amountETH'') = Fin 0"
    and "getBalance env (wallet_address env) = Inr bal"
    and "\<not> num_lt (parseFloat (Str (formatEther env bal))) (num_add lit_0_01 lit_0_002)"
    and "getFeeData env = Inr fd"
    and "getTransactionCount env (wallet_address env) (Some ''pending'') = Inr n"
    and "numberToString env lit_0_01 = number_toString lit_0_01"
    and "parseEther env ''0.01'' = Inr 10000000000000000"
    and "signTransaction env
           \<lparr>tx_to = claim_destination b, tx_value = 10000000000000000, tx_nonce = n,
            tx_gasLimit = 21000, tx_gasPrice = gasPrice fd, tx_chainId = 1\<rparr> = Inr signed"
    and "broadcastTransaction env signed = Inr txr"
    and "tr_wait txr 1 = Inr rc"
  shows "claim_mev_profits env b =
           ([GetBalance (wallet_address env), GetFeeData,
             GetTransactionCount (wallet_address env) (Some ''pending''),
             SignTransaction
               \<lparr>tx_to = claim_destination b, tx_value = 10000000000000000, tx_nonce = n,
                tx_gasLimit = 21000, tx_gasPrice = gasPrice fd, tx_chainId = 1\<rparr>,
             BroadcastTransaction signed, Wait (tr_hash txr) 1],
            Response 200
              [(''success'', jbool True),
               (''txHash'', jstr (tr_hash txr)),
               (''amount'', jnum lit_0_01),
               (''blockNumber'', jnat (rc_blockNumber rc))])"
proof -
  have "num_or (parseFloat (b ''amountETH'')) lit_0_01 = lit_0_01"
    using assms(1) by (auto simp add: num_or_def)
  moreover have "parseEther env (numberToString env lit_0_01) = Inr 10000000000000000"
    using assms by simp
  ultimately show ?thesis
    using assms
    by (simp add: claim_mev_profits_def claim_destination_def Let_def io_defs)
qed

text \<open>
  C10. In \<^verbatim>\<open>/withdraw-profits-to-treasury\<close> without a \<^verbatim>\<open>percentage\<close>, and in
  \<^verbatim>\<open>/claim-mev-profits\<close>, an \<^verbatim>\<open>amountETH\<close> that is missing or unparsable (it
  parses to \<open>NaN\<close>) or zero makes the amount the literal 0.01. The runtime prints that
  double as \<^verbatim>\<open>0.01\<close> (\<open>number_toString\<close>), which \<^verbatim>\<open>parseEther\<close> reads as
  10000000000000000 wei, that is 0.01 ETH. So when the balance is not below
  0.01 + 0.002 and the collaborators answer, a transaction of value 10000000000000000 wei
  is signed, broadcast and awaited, and the answer carries the amount 0.01.
\<close>

theorem default_amount_submitted:
  "(\<not> truthy (b ''percentage'') \<and>
    (parseFloat (b ''amountETH'') = NaN \<or> parseFloat (b ''amountETH'') = Fin 0) \<and>
    getBalance env (wallet_address env) = Inr bal \<and>
    \<not> num_lt (parseFloat (Str (formatEther env bal))) (num_add lit_0_01 lit_0_002) \<and>
    getFeeData env = Inr fd \<and>
    getTransactionCount env (wallet_address env) (Some ''pending'') = Inr n \<and>
    numberToString env lit_0_01 = number_toString lit_0_01 \<and>
    parseEther env ''0.01'' = Inr 10000000000000000 \<and>
    signTransaction env
     \<lparr>tx_to = profits_destination b, tx_value = 10000000000000000, tx_nonce = n,
      tx_gasLimit = 21000, tx_gasPrice = gasPrice fd, tx_chainId = 1\<rparr> = Inr signed \<and>
    broadcastTransaction env signed = Inr txr \<and>
    tr_wait txr 1 = Inr rc
    \<longrightarrow>
    withdraw_profits_to_treasury env b =
      ([GetBalance (wallet_address env), GetFeeData,
        GetTransactionCount (wallet_address env) (Some ''pending''),
        SignTransaction
          \<lparr>tx_to = profits_destination b, tx_value = 10000000000000000, tx_nonce = n,
           tx_gasLimit = 21000, tx_gasPrice = gasPrice fd, tx_chainId = 1\<rparr>,
        BroadcastTransaction signed, Wait (tr_hash txr) 1],
       Response 200
         [(''success'', jbool True),
          (''txHash'', jstr (tr_hash txr)),
          (''amount'', jnum lit_0_01),
          (''blockNumber'', jnat (rc_blockNumber rc))])) \<and>
   ((parseFloat (b ''amountETH'') = NaN \<or> parseFloat (b ''amountETH'') = Fin 0) \<and>
    getBalance env (wallet_address env) = Inr bal \<and>
    \<not> num_lt (parseFloat (Str (formatEther env bal))) (num_add lit_0_01 lit_0_002) \<and>
    getFeeData env = Inr fd \<and>
    getTransactionCount env (wallet_address env) (Some ''pending'') = Inr n \<and>
    numberToString env lit_0_01 = number_toString lit_0_01 \<and>
    parseEther env ''0.01'' = Inr 10000000000000000 \<and>
    signTransaction env
     \<lparr>tx_to = claim_destination b, tx_value = 10000000000000000, tx_nonce = n,
      tx_gasLimit = 21000, tx_gasPrice = gasPrice fd, tx_chainId = 1\<rparr> = Inr signed' \<and>
    broadcastTransaction env signed' = Inr txr' \<and>
    tr_wait txr' 1 = Inr rc'
    \<longrightarrow>
    claim_mev_profits env b =
      ([GetBalance (wallet_address env), GetFeeData,
        GetTransactionCount (wallet_address env) (Some ''pending''),
        SignTransaction
          \<lparr>tx_to = claim_destination b, tx_value = 10000000000000000, tx_nonce = n,
           tx_gasLimit = 21000, tx_gasPrice = gasPrice fd, tx_chainId = 1\<rparr>,
        BroadcastTransaction signed', Wait (tr_hash txr') 1],
       Response 200
         [(''success'', jbool True),
          (''txHash'', jstr (tr_hash txr')),
          (''amount'', jnum lit_0_01),
          (''blockNumber'', jnat (rc_blockNumber rc'))]))"
proof (intro conjI impI)
  assume "\<not> truthy (b ''percentage'') \<and>
    (parseFloat (b ''amountETH'') = NaN \<or> parseFloat (b ''amountETH'') = Fin 0) \<and>
    getBalance env (wallet_address env) = Inr bal \<and>
    \<not> num_lt (parseFloat (Str (formatEther env bal))) (num_add lit_0_01 lit_0_002) \<and>
    getFeeData env = Inr fd \<and>
    getTransactionCount env (wallet_address env) (Some ''pending'') = Inr n \<and>
    numberToString env lit_0_01 = number_toString lit_0_01 \<and>
    parseEther env ''0.01'' = Inr 10000000000000000 \<and>
    signTransaction env
     \<lparr>tx_to = profits_destination b, tx_value = 10000000000000000, tx_nonce = n,
      tx_gasLimit = 21000, tx_gasPrice = gasPrice fd, tx_chainId = 1\<rparr> = Inr signed \<and>
    broadcastTransaction env signed = Inr txr \<and>
    tr_wait txr 1 = Inr rc"
  then show "withdraw_profits_to_treasury env b =
      ([GetBalance (wallet_address env), GetFeeData,
        GetTransactionCount (wallet_address env) (Some ''pending''),
        SignTransaction
          \<lparr>tx_to = profits_destination b, tx_value = 10000000000000000, tx_nonce = n,
           tx_gasLimit = 21000, tx_gasPrice = gasPrice fd, tx_chainId = 1\<rparr>,
        BroadcastTransaction signed, Wait (tr_hash txr) 1],
       Response 200
         [(''success'', jbool True),
          (''txHash'', jstr (tr_hash txr)),
          (''amount'', jnum lit_0_01),
          (''blockNumber'', jnat (rc_blockNumber rc))])"
    by (elim conjE) (rule withdraw_profits_default_amount)
next
  assume "(parseFloat (b ''amountETH'') = NaN \<or> parseFloat (b ''amountETH'') = Fin 0) \<and>
    getBalance env (wallet_address env) = Inr bal \<and>
    \<not> num_lt (parseFloat (Str (formatEther env bal))) (num_add lit_0_01 lit_0_002) \<and>
    getFeeData env = Inr fd \<and>
    getTransactionCount env (wallet_address env) (Some ''pending'') = Inr n \<and>
    numberToString env lit_0_01 = number_toString lit_0_01 \<and>
    parseEther env ''0.01'' = Inr 10000000000000000 \<and>
    signTransaction env
     \<lparr>tx_to = claim_destination b, tx_value = 10000000000000000, tx_nonce = n,
      tx_gasLimit = 21000, tx_gasPrice = gasPrice fd, tx_chainId = 1\<rparr> = Inr signed' \<and>
    broadcastTransaction env signed' = Inr txr' \<and>
    tr_wait txr' 1 = Inr rc'"
  then show "claim_mev_profits env b =
      ([GetBalance (wallet_address env), GetFeeData,
        GetTransactionCount (wallet_address env) (Some ''pending''),
        SignTransaction
          \<lparr>tx_to = claim_destination b, tx_value = 10000000000000000, tx_nonce = n,
           tx_gasLimit = 21000, tx_gasPrice = gasPrice fd, tx_chainId = 1\<rparr>,
        BroadcastTransaction signed', Wait (tr_hash txr') 1],
       Response 200
         [(''success'', jbool True),
          (''txHash'', jstr (tr_hash txr')),
          (''amount'', jnum lit_0_01),
          (''blockNumber'', jnat (rc_blockNumber rc'))])"
    by (elim conjE) (rule claim_mev_profits_default_amount)
qed

theorem default_amount_submitted_witness:
  "withdraw_profits_to_treasury (example_env (Inr 1000000000000000000) (Inr example_txResponse))
     (body_of [(''to'', Str example_destination), (''amountETH'', Str ''abc'')]) =
   ([GetBalance example_wallet, GetFeeData,
     GetTransactionCount example_wallet (Some ''pending''),
     SignTransaction
       \<lparr>tx_to = Str example_destination, tx_value = 10000000000000000, tx_nonce = 7,
        tx_gasLimit = 21000, tx_gasPrice = Some 20000000000, tx_chainId = 1\<rparr>,
     BroadcastTransaction ''0xf86c'', Wait ''0xabc'' 1],
    Response 200
      [(''success'', jbool True),
       (''txHash'', jstr ''0xabc''),
       (''amount'', jnum lit_0_01),
       (''blockNumber'', jnat 19000000)]) \<and>
   claim_mev_profits (example_env (Inr 1000000000000000000) (Inr example_txResponse))
     (body_of [(''to'', Str example_destination), (''amountETH'', Str ''abc'')]) =
   ([GetBalance example_wallet, GetFeeData,
     GetTransactionCount example_wallet (Some ''pending''),
     SignTransaction
       \<lparr>tx_to = Str example_destination, tx_value = 10000000000000000, tx_nonce = 7,
        tx_gasLimit = 21000, tx_gasPrice = Some 20000000000, tx_chainId = 1\<rparr>,
     BroadcastTransaction ''0xf86c'', Wait ''0xabc'' 1],
    Response 200
      [(''success'', jbool True),
       (''txHash'', jstr ''0xabc''),
       (''amount'', jnum lit_0_01),
       (''blockNumber'', jnat 19000000)])"
proof -
  let ?env = "example_env (Inr 1000000000000000000) (Inr example_txResponse)"
  let ?b = "body_of [(''to'', Str example_destination), (''amountETH'', Str ''abc'')]"
  let ?fd = "\<lparr>gasPrice = Some 20000000000\<rparr>"
  have d: "profits_destination ?b = Str example_destination"
    "claim_destination ?b = Str example_destination"
    by (simp_all add: profits_destination_def claim_destination_def js_or_def body_of_def)
  have h1:
    "\<not> truthy (?b ''percentage'') \<and>
     (parseFloat (?b ''amountETH'') = NaN \<or> parseFloat (?b ''amountETH'') = Fin 0) \<and>
     getBalance ?env (wallet_address ?env) = Inr 1000000000000000000 \<and>
     \<not> num_lt (parseFloat (Str (formatEther ?env 1000000000000000000)))
           (num_add lit_0_01 lit_0_002) \<and>
     getFeeData ?env = Inr ?fd \<and>
     getTransactionCount ?env (wallet_address ?env) (Some ''pending'') = Inr 7 \<and>
     numberToString ?env lit_0_01 = number_toString lit_0_01 \<and>
     parseEther ?env ''0.01'' = Inr 10000000000000000 \<and>
     signTransaction ?env
       \<lparr>tx_to = profits_destination ?b, tx_value = 10000000000000000, tx_nonce = 7,
        tx_gasLimit = 21000, tx_gasPrice = gasPrice ?fd, tx_chainId = 1\<rparr> = Inr ''0xf86c'' \<and>
     broadcastTransaction ?env ''0xf86c'' = Inr example_txResponse \<and>
     tr_wait example_txResponse 1 = Inr example_receipt"
    by (simp add: body_of_def)
  have h2:
    "(parseFloat (?b ''amountETH'') = NaN \<or> parseFloat (?b ''amountETH'') = Fin 0) \<and>
     getBalance ?env (wallet_address ?env) = Inr 1000000000000000000 \<and>
     \<not> num_lt (parseFloat (Str (formatEther ?env 1000000000000000000)))
           (num_add lit_0_01 lit_0_002) \<and>
     getFeeData ?env = Inr ?fd \<and>
     getTransactionCount ?env (wallet_address ?env) (Some ''pending'') = Inr 7 \<and>
     numberToString ?env lit_0_01 = number_toString lit_0_01 \<and>
     parseEther ?env ''0.01'' = Inr 10000000000000000 \<and>
     signTransaction ?env
       \<lparr>tx_to = claim_destination ?b, tx_value = 10000000000000000, tx_nonce = 7,
        tx_gasLimit = 21000, tx_gasPrice = gasPrice ?fd, tx_chainId = 1\<rparr> = Inr ''0xf86c'' \<and>
     broadcastTransaction ?env ''0xf86c'' = Inr example_txResponse \<and>
     tr_wait example_txResponse 1 = Inr example_receipt"
    by (simp add: body_of_def)
  note inst = default_amount_submitted
    [where env = ?env and b = ?b and bal = 1000000000000000000 and fd = ?fd and n = 7
       and signed = "''0xf86c''" and txr = example_txResponse
       and rc = example_receipt and signed' = "''0xf86c''" and txr' = example_txResponse
       and rc' = example_receipt]
  show ?thesis
    using inst [THEN conjunct1, THEN mp, OF h1] inst [THEN conjunct2, THEN mp, OF h2]
    by (simp add: d)
qed

section \<open>The five transfer routes and the shared core\<close>

text \<open>
  Each of the four treasury routes is the shared core with its own resolution; so is
  \<^verbatim>\<open>/withdraw\<close> once its three checks on the request have passed, as long as the
  gas price it logs before signing can be formatted.
\<close>

lemma fund_from_earnings_core:
  "fund_from_earnings env b =
     transfer_core env (fund_resolve env b) (\<lambda>bal. fund_success env b) failure_500"
  by (simp add: fund_from_earnings_def transfer_core_def submit_def fund_resolve_def
      fund_success_def fund_destination_def fund_amount_def failure_500_def Let_def io_defs
      split: sum.splits prod.splits)

lemma convert_earnings_to_eth_core:
  "convert_earnings_to_eth env b =
     (if \<not> truthy (convert_destination b) then
        ([], Response 400 [(''error'', jstr ''Missing destination address'')])
      else transfer_core env (convert_resolve env b) (\<lambda>bal. convert_success env b) failure_500)"
  by (simp add: convert_earnings_to_eth_def transfer_core_def submit_def convert_resolve_def
      convert_success_def convert_destination_def convert_amount_def failure_500_def Let_def
      io_defs split: sum.splits prod.splits)

lemma withdraw_profits_to_treasury_core:
  "withdraw_profits_to_treasury env b =
     transfer_core env (fixed_resolve env (profits_destination b) (profits_amount env b))
       (\<lambda>bal. fixed_success (profits_amount env b bal)) failure_500"
  by (simp add: withdraw_profits_to_treasury_def transfer_core_def submit_def fixed_resolve_def
      fixed_success_def profits_destination_def profits_amount_def failure_500_def Let_def
      io_defs split: sum.splits prod.splits)

lemma claim_mev_profits_core:
  "claim_mev_profits env b =
     transfer_core env (fixed_resolve env (claim_destination b) (\<lambda>bal. claim_amount b))
       (\<lambda>bal. fixed_success (claim_amount b)) failure_500"
  by (simp add: claim_mev_profits_def transfer_core_def submit_def fixed_resolve_def
      fixed_success_def claim_destination_def claim_amount_def failure_500_def Let_def io_defs
      split: sum.splits prod.splits)

lemma withdraw_core:
  assumes "truthy (b ''toAddress'')" and "truthy (b ''amountETH'')"
    and "isAddress env (b ''toAddress'')"
    and "method_toLowerCase ''toAddress'' (b ''toAddress'') = Inr l"
    and "l \<noteq> toLowerCase (wallet_address env)"
    and "\<forall>fd. getFeeData env = Inr fd \<longrightarrow> (\<exists>g. formatUnits env (gasPrice fd) ''gwei'' = Inr g)"
  shows "withdraw env b =
     transfer_core env (withdraw_resolve env b) (\<lambda>bal. withdraw_success env b) withdraw_failure"
proof -
  obtain s where s: "method_toString env (b ''amountETH'') = Inr s"
    using assms(2) by (cases "b ''amountETH''") auto
  show ?thesis
    using assms s
    by (auto simp add: withdraw_def transfer_core_def submit_def withdraw_resolve_def
        withdraw_success_def withdraw_failure_def Let_def io_defs
        split: sum.splits prod.splits)
qed

lemma variants_ignore_isAddress:
  "convert_earnings_to_eth (env\<lparr>isAddress := f\<rparr>) b = convert_earnings_to_eth env b"
  "fund_from_earnings (env\<lparr>isAddress := f\<rparr>) b = fund_from_earnings env b"
  "withdraw_profits_to_treasury (env\<lparr>isAddress := f\<rparr>) b = withdraw_profits_to_treasury env b"
  "claim_mev_profits (env\<lparr>isAddress := f\<rparr>) b = claim_mev_profits env b"
  by (simp_all add: convert_earnings_to_eth_def fund_from_earnings_def
      withdraw_profits_to_treasury_def claim_mev_profits_def Let_def provider_getBalance_def
      provider_getFeeData_def provider_getTransactionCount_def wallet_signTransaction_def
      provider_broadcastTransaction_def cong: if_cong)

text \<open>
  C1, as claimed: the four treasury routes enforce the precondition checks of
  \<^verbatim>\<open>/withdraw\<close>. They do not: for a destination equal to the wallet's own address
  \<^verbatim>\<open>/withdraw\<close> answers \<^verbatim>\<open>Cannot send to backend wallet\<close> without any call, while
  each of the four routes signs and broadcasts the transfer to the wallet itself.
\<close>

theorem variants_accept_self_transfer:
  "withdraw (example_env (Inr 1000000000000000000) (Inr example_txResponse))
     (body_of [(''toAddress'', Str example_wallet), (''amountETH'', Str ''0.01'')]) =
     ([], Response 400 [(''error'', jstr ''Cannot send to backend wallet'')]) \<and>
   fst (convert_earnings_to_eth (example_env (Inr 1000000000000000000) (Inr example_txResponse))
     (body_of [(''toAddress'', Str example_wallet), (''amountETH'', Str ''0.01'')])) =
     [GetBalance example_wallet, GetFeeData,
      GetTransactionCount example_wallet (Some ''pending''),
      SignTransaction
        \<lparr>tx_to = Str example_wallet, tx_value = 10000000000000000, tx_nonce = 7,
         tx_gasLimit = 21000, tx_gasPrice = Some 20000000000, tx_chainId = 1\<rparr>,
      BroadcastTransaction ''0xf86c'', Wait ''0xabc'' 1] \<and>
   fst (fund_from_earnings (example_env (Inr 1000000000000000000) (Inr example_txResponse))
     (body_of [(''toAddress'', Str example_wallet), (''amountETH'', Str ''0.01'')])) =
     [GetBalance example_wallet, GetFeeData,
      GetTransactionCount example_wallet (Some ''pending''),
      SignTransaction
        \<lparr>tx_to = Str example_wallet, tx_value = 10000000000000000, tx_nonce = 7,
         tx_gasLimit = 21000, tx_gasPrice = Some 20000000000, tx_chainId = 1\<rparr>,
      BroadcastTransaction ''0xf86c'', Wait ''0xabc'' 1] \<and>
   fst (withdraw_profits_to_treasury
     (example_env (Inr 1000000000000000000) (Inr example_txResponse))
     (body_of [(''toAddress'', Str example_wallet), (''amountETH'', Str ''0.01'')])) =
     [GetBalance example_wallet, GetFeeData,
      GetTransactionCount example_wallet (Some ''pending''),
      SignTransaction
        \<lparr>tx_to = Str example_wallet, tx_value = 10000000000000000, tx_nonce = 7,
         tx_gasLimit = 21000, tx_gasPrice = Some 20000000000, tx_chainId = 1\<rparr>,
      BroadcastTransaction ''0xf86c'', Wait ''0xabc'' 1] \<and>
   fst (claim_mev_profits (example_env (Inr 1000000000000000000) (Inr example_txResponse))
     (body_of [(''toAddress'', Str example_wallet), (''amountETH'', Str ''0.01'')])) =
     [GetBalance example_wallet, GetFeeData,
      GetTransactionCount example_wallet (Some ''pending''),
      SignTransaction
        \<lparr>tx_to = Str example_wallet, tx_value = 10000000000000000, tx_nonce = 7,
         tx_gasLimit = 21000, tx_gasPrice = Some 20000000000, tx_chainId = 1\<rparr>,
      BroadcastTransaction ''0xf86c'', Wait ''0xabc'' 1]"
  by (simp add: withdraw_def convert_earnings_to_eth_def fund_from_earnings_def
      withdraw_profits_to_treasury_def claim_mev_profits_def Let_def io_defs body_of_def
      js_or_def num_or_def)

text \<open>
  C1, amended. Each of the four treasury routes is \<open>transfer_core\<close> applied to the
  route's resolution of destination and amount: after the balance query the route
  rejects when the balance is below the amount plus 0.002 and otherwise runs the common
  submission (\<^verbatim>\<open>/convert-earnings-to-eth\<close> first requires a destination to be
  present). \<^verbatim>\<open>/withdraw\<close> is the same core, with its own balance check, for the
  requests that pass its checks of presence, address validity and self-transfer. None of
  the four routes consults the address validator.
\<close>

theorem transfer_variants_share_core:
  "convert_earnings_to_eth env b =
     (if \<not> truthy (convert_destination b) then
        ([], Response 400 [(''error'', jstr ''Missing destination address'')])
      else transfer_core env (convert_resolve env b) (\<lambda>bal. convert_success env b)
             failure_500) \<and>
   fund_from_earnings env b =
     transfer_core env (fund_resolve env b) (\<lambda>bal. fund_success env b) failure_500 \<and>
   withdraw_profits_to_treasury env b =
     transfer_core env (fixed_resolve env (profits_destination b) (profits_amount env b))
       (\<lambda>bal. fixed_success (profits_amount env b bal)) failure_500 \<and>
   claim_mev_profits env b =
     transfer_core env (fixed_resolve env (claim_destination b) (\<lambda>bal. claim_amount b))
       (\<lambda>bal. fixed_success (claim_amount b)) failure_500 \<and>
   (truthy (b ''toAddress'') \<and> truthy (b ''amountETH'') \<and> isAddress env (b ''toAddress'') \<and>
    method_toLowerCase ''toAddress'' (b ''toAddress'') = Inr l \<and>
    l \<noteq> toLowerCase (wallet_address env) \<and>
    (\<forall>fd. getFeeData env = Inr fd \<longrightarrow> (\<exists>g. formatUnits env (gasPrice fd) ''gwei'' = Inr g))
    \<longrightarrow>
    withdraw env b =
      transfer_core env (withdraw_resolve env b) (\<lambda>bal. withdraw_success env b)
        withdraw_failure) \<and>
   convert_earnings_to_eth (env\<lparr>isAddress := f\<rparr>) b = convert_earnings_to_eth env b \<and>
   fund_from_earnings (env\<lparr>isAddress := f\<rparr>) b = fund_from_earnings env b \<and>
   withdraw_profits_to_treasury (env\<lparr>isAddress := f\<rparr>) b =
     withdraw_profits_to_treasury env b \<and>
   claim_mev_profits (env\<lparr>isAddress := f\<rparr>) b = claim_mev_profits env b"
proof (intro conjI impI)
  assume "truthy (b ''toAddress'') \<and> truthy (b ''amountETH'') \<and> isAddress env (b ''toAddress'') \<and>
    method_toLowerCase ''toAddress'' (b ''toAddress'') = Inr l \<and>
    l \<noteq> toLowerCase (wallet_address env) \<and>
    (\<forall>fd. getFeeData env = Inr fd \<longrightarrow> (\<exists>g. formatUnits env (gasPrice fd) ''gwei'' = Inr g))"
  then show "withdraw env b =
      transfer_core env (withdraw_resolve env b) (\<lambda>bal. withdraw_success env b)
        withdraw_failure"
    by (elim conjE) (rule withdraw_core)
qed (simp_all only: convert_earnings_to_eth_core [symmetric] fund_from_earnings_core [symmetric]
       withdraw_profits_to_treasury_core [symmetric] claim_mev_profits_core [symmetric]
       variants_ignore_isAddress)

theorem transfer_variants_share_core_witness:
  "withdraw (example_env (Inr 1000000000000000000) (Inr example_txResponse))
     (body_of [(''toAddress'', Str example_destination), (''amountETH'', Str ''0.5'')]) =
   transfer_core (example_env (Inr 1000000000000000000) (Inr example_txResponse))
     (withdraw_resolve (example_env (Inr 1000000000000000000) (Inr example_txResponse))
        (body_of [(''toAddress'', Str example_destination), (''amountETH'', Str ''0.5'')]))
     (\<lambda>bal. withdraw_success (example_env (Inr 1000000000000000000) (Inr example_txResponse))
        (body_of [(''toAddress'', Str example_destination), (''amountETH'', Str ''0.5'')]))
     withdraw_failure"
proof -
  let ?env = "example_env (Inr 1000000000000000000) (Inr example_txResponse)"
  let ?b = "body_of [(''toAddress'', Str example_destination), (''amountETH'', Str ''0.5'')]"
  have h:
    "truthy (?b ''toAddress'') \<and> truthy (?b ''amountETH'') \<and>
     isAddress ?env (?b ''toAddress'') \<and>
     method_toLowerCase ''toAddress'' (?b ''toAddress'') = Inr example_destination \<and>
     example_destination \<noteq> toLowerCase (wallet_address ?env) \<and>
     (\<forall>fd. getFeeData ?env = Inr fd \<longrightarrow>
        (\<exists>g. formatUnits ?env (gasPrice fd) ''gwei'' = Inr g))"
    by (auto simp add: body_of_def)
  show ?thesis
    using transfer_variants_share_core
      [where env = ?env and b = ?b and l = example_destination,
       THEN conjunct2, THEN conjunct2, THEN conjunct2, THEN conjunct2, THEN conjunct1,
       THEN mp, OF h] .
qed

end
